theory Spec2Isabelle
  imports Complex_Main "HOL-Library.Sublist"
begin

section \<open>Values shared by the three processors\<close>

text \<open>
  The processors of \<^verbatim>\<open>ocrd_tesserocr\<close> (\<^verbatim>\<open>crop.py\<close>, \<^verbatim>\<open>deskew.py\<close>,
  \<^verbatim>\<open>segment_line.py\<close>) are embedded as functions over an explicit state: the
  log, the files added to the workspace, the trace of calls on the engine and the
  engine's own settings. An exception of the source is an \<open>Inl\<close> result that carries
  the state reached when it was raised.
\<close>

datatype error =
  UnboundLocalError | ZeroDivisionError | AssertionError | ValueError | OverflowError

text \<open>
  Python floats: the three special values, and the finite ones as the reals they
  denote. The rounding of an operation to a double is written out where the crop
  processor compares against its result (\<open>fl\<close> below); the angle arithmetic of the
  deskew processor is over the reals.
\<close>

datatype pyfloat = NaN | PInf | NInf | Num real

text \<open>Python 3 \<^verbatim>\<open>round\<close>: to the nearest integer, a tie to the even one.\<close>

definition py_round :: "real \<Rightarrow> int" where
  "py_round q =
     (let f = \<lfloor>q\<rfloor>; d = q - of_int f
      in if d < 1 / 2 then f else if 1 / 2 < d then f + 1
         else if even f then f else f + 1)"

text \<open>
  The double nearest to a real, a tie to the one with an even significand (IEEE 754
  binary64, round to nearest even): the real is scaled to a significand of 53 bits,
  which is rounded to an integer. The range of the exponent is not bounded: the
  resolutions of an image are far inside it.
\<close>

fun ilog2 :: "nat \<Rightarrow> nat" where
  "ilog2 n = (if n < 2 then 0 else Suc (ilog2 (n div 2)))"

declare ilog2.simps [simp del]

definition pow2 :: "int \<Rightarrow> real" where
  "pow2 e = (if 0 \<le> e then 2 ^ nat e else 1 / 2 ^ nat (- e))"

text \<open>The \<open>e\<close> with \<open>2 ^ e \<le> x < 2 ^ (e + 1)\<close>, for a positive \<open>x\<close>.\<close>

definition exponent :: "real \<Rightarrow> int" where
  "exponent x =
     (if 1 \<le> x then int (ilog2 (nat \<lfloor>x\<rfloor>))
      else (let k = int (ilog2 (nat \<lfloor>1 / x\<rfloor>))
            in if x * pow2 k = 1 then - k else - k - 1))"

definition fl :: "real \<Rightarrow> real" where
  "fl x =
     (if x = 0 then 0
      else (let e = exponent \<bar>x\<bar> - 52;
                m = py_round (\<bar>x\<bar> / pow2 e)
            in sgn x * of_int m * pow2 e))"

text \<open>
  \<^verbatim>\<open>round(dpi * 2.54)\<close>: the integer becomes a double, \<^verbatim>\<open>2.54\<close> is the double
  nearest to it, and the product is rounded to a double before \<^verbatim>\<open>round\<close>.
\<close>

definition dpi_from_cm :: "int \<Rightarrow> int" where
  "dpi_from_cm dpi = py_round (fl (fl (of_int dpi) * fl (254 / 100)))"

definition isnan :: "pyfloat \<Rightarrow> bool" where
  "isnan f = (f = NaN)"

text \<open>\<^verbatim>\<open>f < c\<close> for a finite constant \<open>c\<close>: every comparison with NaN is false.\<close>

fun float_less :: "pyfloat \<Rightarrow> real \<Rightarrow> bool" where
  "float_less NaN c = False"
| "float_less PInf c = False"
| "float_less NInf c = True"
| "float_less (Num r) c = (r < c)"

type_synonym bbox = "int \<times> int \<times> int \<times> int"

record xywh =
  box_x :: int
  box_y :: int
  box_w :: int
  box_h :: int

text \<open>
  PIL images are symbolic: an image named by the workspace or by the engine, and the
  images PIL derives from it. What PIL, the EXIF reader and the engine report about
  an image is read through the environment below.
\<close>

datatype pil_image =
  Named string
| Crop pil_image bbox
| Rotate pil_image real

datatype level = DEBUG | INFO | WARNING | ERROR

text \<open>
  A log record is the method called on \<^verbatim>\<open>LOG\<close>, the format string (without
  its quotation marks and degree signs) and the arguments; \<open>AObj\<close> is an argument
  whose rendering is not modelled.
\<close>

datatype logarg = AInt int | AStr string | AFloat pyfloat | AObj

type_synonym log_record = "level \<times> string \<times> logarg list"

subsection \<open>The page-description document\<close>

datatype pval = PInt int | PBool bool | PStr string

record metadata_item =
  item_type :: string
  item_name :: string
  item_value :: string
  item_Labels :: "(string \<times> pval) list list"

record alternative_image =
  filename :: string
  comments :: string

record text_line =
  line_id :: string
  line_points :: string

text \<open>
  The attributes \<^verbatim>\<open>_process_segment\<close> of the deskew processor touches are common
  to pages and regions; regions and pages extend them.
\<close>

record segment =
  AlternativeImage :: "alternative_image list"
  orientation :: "real option"
  primaryScript :: "string option"
  readingDirection :: "string option"
  textLineOrder :: "string option"

record region = segment +
  region_id :: string
  region_points :: string
  TextLine :: "text_line list"

record page = segment +
  imageFilename :: string
  Border :: "string option"
  TextRegion :: "region list"
  TableRegion :: "region list"

record pcgts =
  Metadata :: "metadata_item list"
  Page :: page

datatype seg_kind = PageType | TextRegionType | TableRegionType

subsection \<open>The workspace and the engine\<close>

record input_file =
  file_ID :: string
  file_pageId :: "string option"
  file_pcgts :: pcgts

datatype file_content = PageXML pcgts | ImageData pil_image

record ocrd_file =
  out_ID :: string
  out_file_grp :: string
  out_pageId :: "string option"
  out_mimetype :: string
  out_local_filename :: string
  out_content :: file_content

datatype psm =
  OSD_ONLY | AUTO_OSD | AUTO_ONLY | AUTO | SINGLE_COLUMN | SINGLE_BLOCK_VERT_TEXT
| SINGLE_BLOCK | SINGLE_LINE | SINGLE_WORD | CIRCLE_WORD | SINGLE_CHAR | SPARSE_TEXT
| SPARSE_TEXT_OSD | RAW_LINE

datatype oem = TESSERACT_ONLY | LSTM_ONLY | TESSERACT_LSTM_COMBINED | OEM_DEFAULT

datatype ril = BLOCK | PARA | TEXTLINE | WORD | SYMBOL

record tessapi =
  api_path :: string
  api_lang :: "string option"
  api_oem :: "oem option"
  api_psm :: psm
  api_variables :: "(string \<times> string) list"
  api_image :: "pil_image option"

record component =
  c_image :: pil_image
  c_xywh :: xywh
  c_index :: int
  c_para :: int

record exif =
  xResolution :: int
  resolutionUnit :: string

record osr =
  orient_deg :: int
  orient_conf :: pyfloat
  script_name :: string
  script_conf :: pyfloat

datatype Orientation = PAGE_UP | PAGE_RIGHT | PAGE_DOWN | PAGE_LEFT | Orientation_other

datatype direction = LEFT_TO_RIGHT | RIGHT_TO_LEFT | TOP_TO_BOTTOM | direction_other

record layout_orientation =
  lo_orientation :: Orientation
  lo_writing_direction :: direction
  lo_textline_order :: direction
  lo_deskew_angle :: pyfloat

text \<open>
  The trace of the run: engine instances coming and going, the calls made on the
  engine, and the files fetched from and added to the workspace, in order.
\<close>

datatype event =
  TessInit | TessEnd | TessCall string | DownloadFile string | AddFile string

record world =
  LOG_records :: "log_record list"
  files :: "ocrd_file list"
  trace :: "event list"

record state = world +
  tess :: tessapi

text \<open>
  What the processors take from outside \<^verbatim>\<open>src/\<close>: PIL and the EXIF reader, the
  engine's analyses (functions of the engine's settings and image), the workspace's
  image resolver, the helpers of \<^verbatim>\<open>ocrd_utils\<close> and of the package's own
  \<^verbatim>\<open>common\<close> and \<^verbatim>\<open>config\<close> modules. They are parameters of the model.
\<close>

record env =
  im_width :: "pil_image \<Rightarrow> nat"
  im_height :: "pil_image \<Rightarrow> nat"
  im_getbbox :: "pil_image \<Rightarrow> bbox option"
  im_info_dpi :: "pil_image \<Rightarrow> int"
  OcrdExif :: "pil_image \<Rightarrow> exif"
  resolve_image_as_pil :: "string \<Rightarrow> pil_image"
  tess_GetComponentImages :: "tessapi \<Rightarrow> ril \<Rightarrow> component list"
  tess_DetectOrientationScript :: "tessapi \<Rightarrow> osr option"
  tess_AnalyseLayout :: "tessapi \<Rightarrow> layout_orientation option"
  bbox_from_xywh :: "xywh \<Rightarrow> bbox"
  bbox_from_points :: "string \<Rightarrow> bbox"
  points_from_bbox :: "int \<Rightarrow> int \<Rightarrow> int \<Rightarrow> int \<Rightarrow> string"
  points_from_xywh :: "xywh \<Rightarrow> string"
  image_from_page :: "page \<Rightarrow> pil_image \<Rightarrow> string \<Rightarrow> pil_image \<times> xywh"
  image_from_page_info :: "page \<Rightarrow> string \<Rightarrow> pil_image \<times> xywh \<times> exif"
  image_from_region :: "region \<Rightarrow> pil_image \<Rightarrow> xywh \<Rightarrow> pil_image \<times> xywh"
  image_from_segment :: "region \<Rightarrow> pil_image \<Rightarrow> xywh \<Rightarrow> pil_image \<times> xywh"
  image_file_path :: "string \<Rightarrow> string \<Rightarrow> string"
  concat_padded :: "string \<Rightarrow> nat \<Rightarrow> string"
  TESSDATA_PREFIX :: string
  tool_step :: "string \<Rightarrow> string"

record processor =
  input_file_grp :: string
  output_file_grp :: string
  input_files :: "input_file list"

definition MIMETYPE_PAGE :: string where
  "MIMETYPE_PAGE = ''application/vnd.prima.page+xml''"

subsection \<open>Logging, engine calls, workspace calls\<close>

definition LOG :: "level \<Rightarrow> string \<Rightarrow> logarg list \<Rightarrow> state \<Rightarrow> state" where
  "LOG lvl fmt args s = s\<lparr>LOG_records := LOG_records s @ [(lvl, fmt, args)]\<rparr>"

definition SetVariable :: "string \<Rightarrow> string \<Rightarrow> state \<Rightarrow> state" where
  "SetVariable name val s =
     s\<lparr>trace := trace s @ [TessCall ''SetVariable''],
       tess := (tess s)\<lparr>api_variables := api_variables (tess s) @ [(name, val)]\<rparr>\<rparr>"

definition SetImage :: "pil_image \<Rightarrow> state \<Rightarrow> state" where
  "SetImage img s =
     s\<lparr>trace := trace s @ [TessCall ''SetImage''],
       tess := (tess s)\<lparr>api_image := Some img\<rparr>\<rparr>"

definition SetPageSegMode :: "psm \<Rightarrow> state \<Rightarrow> state" where
  "SetPageSegMode m s =
     s\<lparr>trace := trace s @ [TessCall ''SetPageSegMode''],
       tess := (tess s)\<lparr>api_psm := m\<rparr>\<rparr>"

definition GetComponentImages :: "env \<Rightarrow> ril \<Rightarrow> state \<Rightarrow> component list \<times> state" where
  "GetComponentImages E r s =
     (tess_GetComponentImages E (tess s) r,
      s\<lparr>trace := trace s @ [TessCall ''GetComponentImages'']\<rparr>)"

definition DetectOrientationScript :: "env \<Rightarrow> state \<Rightarrow> osr option \<times> state" where
  "DetectOrientationScript E s =
     (tess_DetectOrientationScript E (tess s),
      s\<lparr>trace := trace s @ [TessCall ''DetectOrientationScript'']\<rparr>)"

definition AnalyseLayout :: "env \<Rightarrow> state \<Rightarrow> layout_orientation option \<times> state" where
  "AnalyseLayout E s =
     (tess_AnalyseLayout E (tess s),
      s\<lparr>trace := trace s @ [TessCall ''AnalyseLayout'']\<rparr>)"

text \<open>
  \<^verbatim>\<open>with PyTessBaseAPI(...) as tessapi\<close>: entering creates the one instance of the
  block, leaving ends it, also when the body raised.
\<close>

definition PyTessBaseAPI ::
  "string \<Rightarrow> string option \<Rightarrow> oem option \<Rightarrow> psm option \<Rightarrow> world \<Rightarrow> state" where
  "PyTessBaseAPI path lang om pm w =
     world.extend (w\<lparr>trace := trace w @ [TessInit]\<rparr>)
       (state.fields \<lparr>api_path = path, api_lang = lang, api_oem = om,
          api_psm = (case pm of None \<Rightarrow> AUTO | Some m \<Rightarrow> m),
          api_variables = [], api_image = None\<rparr>)"

definition tess_exit :: "state \<Rightarrow> world" where
  "tess_exit s = (world.truncate s)\<lparr>trace := trace s @ [TessEnd]\<rparr>"

definition download_file :: "input_file \<Rightarrow> state \<Rightarrow> pcgts \<times> state" where
  "download_file f s = (file_pcgts f, s\<lparr>trace := trace s @ [DownloadFile (file_ID f)]\<rparr>)"

definition add_file :: "ocrd_file \<Rightarrow> state \<Rightarrow> state" where
  "add_file f s = s\<lparr>files := files s @ [f], trace := trace s @ [AddFile (out_ID f)]\<rparr>"

text \<open>
  Modelled from the spec: \<^verbatim>\<open>save_image_file\<close> of the package's \<^verbatim>\<open>common\<close> module
  is not under \<^verbatim>\<open>src/\<close>. Following the spec's "workflow file-group naming convention
  for derived image outputs", it adds the image to the workspace under the given file
  identifier and file group and returns the path of the new file.
\<close>

definition save_image_file ::
  "env \<Rightarrow> pil_image \<Rightarrow> string \<Rightarrow> string option \<Rightarrow> string \<Rightarrow> state \<Rightarrow> string \<times> state" where
  "save_image_file E img file_id page_id file_grp s =
     (let file_path = image_file_path E file_grp file_id
      in (file_path,
          add_file \<lparr>out_ID = file_id, out_file_grp = file_grp, out_pageId = page_id,
                    out_mimetype = ''image/png'', out_local_filename = file_path,
                    out_content = ImageData img\<rparr> s))"

subsection \<open>Strings\<close>

fun str_nat :: "nat \<Rightarrow> string" where
  "str_nat n =
     (if n < 10 then [''0123456789'' ! n]
      else str_nat (n div 10) @ [''0123456789'' ! (n mod 10)])"

declare str_nat.simps [simp del]

definition str_int :: "int \<Rightarrow> string" where
  "str_int i = (if i < 0 then CHR ''-'' # str_nat (nat (- i)) else str_nat (nat i))"

text \<open>\<^verbatim>\<open>'%04d' % i\<close>: the sign counts in the width of four.\<close>

definition fmt_04d :: "int \<Rightarrow> string" where
  "fmt_04d i =
     (let ds = str_nat (nat \<bar>i\<bar>); sgn = (if i < 0 then ''-'' else '''')
      in sgn @ replicate (4 - length sgn - length ds) CHR ''0'' @ ds)"

text \<open>
  \<^verbatim>\<open>s.replace(old, new)\<close>: every occurrence, left to right, not overlapping; an
  empty \<open>old\<close> matches before every character and at the end.
\<close>

function str_replace_ne :: "string \<Rightarrow> string \<Rightarrow> string \<Rightarrow> string" where
  "str_replace_ne old new s =
     (if s = [] \<or> old = [] then s
      else if prefix old s then new @ str_replace_ne old new (drop (length old) s)
      else hd s # str_replace_ne old new (tl s))"
  by pat_completeness auto
termination
  by (relation "measure (\<lambda>(old, new, s). length s)") auto

declare str_replace_ne.simps [simp del]

definition str_replace :: "string \<Rightarrow> string \<Rightarrow> string \<Rightarrow> string" where
  "str_replace s old new =
     (if old = [] then new @ concat (map (\<lambda>c. c # new) s)
      else str_replace_ne old new s)"

text \<open>\<^verbatim>\<open>os.path.join(a, b)\<close> on POSIX.\<close>

definition os_path_join :: "string \<Rightarrow> string \<Rightarrow> string" where
  "os_path_join a b =
     (if b \<noteq> [] \<and> hd b = CHR ''/'' then b
      else if a = [] \<or> last a = CHR ''/'' then a @ b
      else a @ ''/'' @ b)"

text \<open>\<^verbatim>\<open>input_file.pageId or input_file.ID\<close>.\<close>

definition page_id_of :: "input_file \<Rightarrow> string" where
  "page_id_of f =
     (case file_pageId f of
        None \<Rightarrow> file_ID f
      | Some p \<Rightarrow> if p = [] then file_ID f else p)"

text \<open>
  The output file of every processor: the input file's identifier with the input
  file group replaced by the output one, or a padded name when that changes nothing.
\<close>

definition add_output_file ::
  "env \<Rightarrow> processor \<Rightarrow> nat \<Rightarrow> input_file \<Rightarrow> pcgts \<Rightarrow> state \<Rightarrow> state" where
  "add_output_file E P n f doc s =
     (let file_id = str_replace (file_ID f) (input_file_grp P) (output_file_grp P);
          file_id = (if file_id = file_ID f then concat_padded E (output_file_grp P) n
                     else file_id)
      in add_file \<lparr>out_ID = file_id, out_file_grp = output_file_grp P,
                   out_pageId = file_pageId f, out_mimetype = MIMETYPE_PAGE,
                   out_local_filename =
                     os_path_join (output_file_grp P) (file_id @ ''.xml''),
                   out_content = PageXML doc\<rparr> s)"

definition add_MetadataItem ::
  "env \<Rightarrow> string \<Rightarrow> (string \<times> pval) list \<Rightarrow> pcgts \<Rightarrow> pcgts" where
  "add_MetadataItem E tool parameter doc =
     doc\<lparr>Metadata := Metadata doc @
       [\<lparr>item_type = ''processingStep'', item_name = tool_step E tool,
         item_value = tool, item_Labels = [parameter]\<rparr>]\<rparr>"

section \<open>The crop processor (\<^verbatim>\<open>crop.py\<close>)\<close>

definition TOOL_crop :: string where
  "TOOL_crop = ''ocrd-tesserocr-crop''"

definition FILEGRP_IMG_crop :: string where
  "FILEGRP_IMG_crop = ''OCR-D-IMG-CROP''"

text \<open>The running minimum and maximum of both loops of \<^verbatim>\<open>process\<close>.\<close>

definition update_extent :: "bbox \<Rightarrow> bbox \<Rightarrow> bbox" where
  "update_extent ext b =
     (case ext of (min_x, min_y, max_x, max_y) \<Rightarrow>
      case b of (left, top', right, bottom) \<Rightarrow>
        (min min_x left, min min_y top', max max_x right, max max_y bottom))"

text \<open>
  Lines 76 to 89: the extent of the existing TextRegions, which reads the width and
  height of \<^verbatim>\<open>image\<close>. That local variable is bound only by the loop over the
  engine's blocks further down, so it holds a value here only when an earlier input
  file of the same run had a block.
\<close>

definition crop_existing_regions ::
  "env \<Rightarrow> page \<Rightarrow> pil_image option \<Rightarrow> state \<Rightarrow> (error \<times> state) + state" where
  "crop_existing_regions E pg image_var s =
     (let regions = TextRegion pg in
      if regions \<noteq> [] then
        (case image_var of
           None \<Rightarrow> Inl (UnboundLocalError, s)
         | Some img \<Rightarrow>
             (case foldl (\<lambda>ext r. update_extent ext (bbox_from_points E (region_points r)))
                     (int (im_width E img), int (im_height E img), 0, 0) regions of
                (min_x, min_y, max_x, max_y) \<Rightarrow>
                  Inr (LOG WARNING ''Ignoring extent from existing TextRegions: %i:%i,%i:%i''
                         [AInt min_x, AInt max_x, AInt min_y, AInt max_y] s)))
      else Inr s)"

text \<open>
  Lines 92 to 100: the resolution given to the engine and the zoom factor.
  \<^verbatim>\<open>300 / dpi\<close> divides two integers: it raises when the resolution is zero, and
  is the double nearest to the quotient otherwise.
\<close>

definition crop_resolution ::
  "env \<Rightarrow> pil_image \<Rightarrow> state \<Rightarrow> (error \<times> state) + (real \<times> state)" where
  "crop_resolution E page_image s =
     (let page_image_info = OcrdExif E page_image in
      if xResolution page_image_info \<noteq> 1 then
        (let dpi = xResolution page_image_info;
             dpi = (if resolutionUnit page_image_info = ''cm''
                    then dpi_from_cm dpi else dpi);
             s = SetVariable ''user_defined_dpi'' (str_int dpi) s
         in if dpi = 0 then Inl (ZeroDivisionError, s)
            else Inr (fl (300 / of_int dpi), s))
      else Inr (1, s))"

text \<open>
  Lines 116 to 144: the body of the loop over the engine's blocks. \<^verbatim>\<open>25 / zoom\<close>
  is a double; the integer width or height is compared with it exactly.
\<close>

definition crop_block ::
  "env \<Rightarrow> real \<Rightarrow> component \<Rightarrow> state \<times> pil_image option \<times> bbox
     \<Rightarrow> state \<times> pil_image option \<times> bbox" where
  "crop_block E zoom c acc =
     (case acc of (s, _, ext) \<Rightarrow>
       (case bbox_from_xywh E (c_xywh c) of (left, top', right, bottom) \<Rightarrow>
         (let img = c_image c;
              ID = ''region'' @ fmt_04d (c_index c);
              s = LOG DEBUG ''Detected text region %s: %i:%i,%i:%i''
                    [AStr ID, AInt left, AInt right, AInt top', AInt bottom] s
          in (case im_getbbox E img of
                None \<Rightarrow>
                  (LOG DEBUG ''Ignoring region %s because its binarization is empty''
                     [AStr ID] s,
                   Some img, ext)
              | Some (b0, b1, b2, b3) \<Rightarrow>
                  (let width = b2 - b0 in
                   if of_int width < fl (25 / zoom) then
                     (LOG DEBUG ''Ignoring region %s because its width is too small (%d)''
                        [AStr ID, AInt width] s, Some img, ext)
                   else
                     (let height = b3 - b1 in
                      if of_int height < fl (25 / zoom) then
                        (LOG DEBUG
                           ''Ignoring region %s because its height is too small (%d)''
                           [AStr ID, AInt height] s, Some img, ext)
                      else
                        (case update_extent ext (left, top', right, bottom) of
                           (min_x, min_y, max_x, max_y) \<Rightarrow>
                             (LOG DEBUG ''Updated page border: %i:%i,%i:%i''
                                [AInt min_x, AInt max_x, AInt min_y, AInt max_y] s,
                              Some img, (min_x, min_y, max_x, max_y)))))))))"

primrec crop_blocks ::
  "env \<Rightarrow> real \<Rightarrow> component list \<Rightarrow> state \<times> pil_image option \<times> bbox
     \<Rightarrow> state \<times> pil_image option \<times> bbox" where
  "crop_blocks E zoom [] acc = acc"
| "crop_blocks E zoom (c # cs) acc = crop_blocks E zoom cs (crop_block E zoom c acc)"

text \<open>Lines 149 to 174: the Border and the cropped image, or the error record.\<close>

definition crop_annotate ::
  "env \<Rightarrow> processor \<Rightarrow> int \<Rightarrow> nat \<Rightarrow> input_file \<Rightarrow> pil_image \<Rightarrow> bbox
     \<Rightarrow> page \<times> state \<Rightarrow> page \<times> state" where
  "crop_annotate E P padding n f page_image ext ps =
     (case ps of (pg, s) \<Rightarrow>
       (case ext of (min_x, min_y, max_x, max_y) \<Rightarrow>
         (if min_x < max_x \<and> min_y < max_y then
            (let min_x = max (min_x - padding) 0;
                 max_x = min (max_x + padding) (int (im_width E page_image));
                 min_y = max (min_y - padding) 0;
                 max_y = min (max_y + padding) (int (im_height E page_image));
                 s = LOG DEBUG ''Padded page border: %i:%i,%i:%i''
                       [AInt min_x, AInt max_x, AInt min_y, AInt max_y] s;
                 pg = pg\<lparr>Border := Some (points_from_bbox E min_x min_y max_x max_y)\<rparr>;
                 cropped = Crop page_image (min_x, min_y, max_x, max_y);
                 file_id = str_replace (file_ID f) (input_file_grp P) FILEGRP_IMG_crop;
                 file_id = (if file_id = file_ID f
                            then concat_padded E FILEGRP_IMG_crop n else file_id)
             in (case save_image_file E cropped file_id (Some (page_id_of f))
                        FILEGRP_IMG_crop s of
                   (file_path, s) \<Rightarrow>
                     (pg\<lparr>AlternativeImage := AlternativeImage pg @
                           [\<lparr>filename = file_path, comments = ''cropped''\<rparr>]\<rparr>, s)))
          else
            (pg, LOG ERROR ''Cannot find valid extent for page %s''
                   [AStr (page_id_of f)] s))))"

text \<open>
  The body of the loop over the input files, in its three parts. The pair it threads
  holds the state and the local variable \<^verbatim>\<open>image\<close>, which outlives each pass
  of the loop. Lines 56 to 105: the document, the page image, the zoom factor and
  the engine made ready.
\<close>

definition crop_prepare ::
  "env \<Rightarrow> int \<Rightarrow> nat \<Rightarrow> input_file \<Rightarrow> state \<times> pil_image option
     \<Rightarrow> (error \<times> state) + (pcgts \<times> pil_image \<times> real \<times> state)" where
  "crop_prepare E padding n f st =
     (case st of (s, image_var) \<Rightarrow>
       (case download_file f
               (LOG INFO ''INPUT FILE %i / %s'' [AInt (int n), AStr (page_id_of f)] s) of
          (doc, s) \<Rightarrow>
            (let doc = add_MetadataItem E TOOL_crop [(''padding'', PInt padding)] doc;
                 pg = Page doc;
                 s = (case Border pg of
                        None \<Rightarrow> s
                      | Some pts \<Rightarrow>
                          (case bbox_from_points E pts of (left, top', right, bottom) \<Rightarrow>
                             LOG WARNING ''Overwriting existing Border: %i:%i,%i:%i''
                               [AInt left, AInt top', AInt right, AInt bottom] s))
             in (case crop_existing_regions E pg image_var s of
                   Inl err \<Rightarrow> Inl err
                 | Inr s \<Rightarrow>
                     (let page_image = resolve_image_as_pil E (imageFilename pg)
                      in (case crop_resolution E page_image s of
                            Inl err \<Rightarrow> Inl err
                          | Inr (zoom, s) \<Rightarrow>
                              (let s = LOG DEBUG ''Cropping with tesseract'' [] s;
                                   s = SetImage page_image s;
                                   s = SetPageSegMode SPARSE_TEXT s
                               in Inr (doc, page_image, zoom, s))))))))"

text \<open>Lines 109 to 144: the extent of the blocks the engine detects.\<close>

definition crop_detect ::
  "env \<Rightarrow> real \<Rightarrow> pil_image \<Rightarrow> state \<times> pil_image option
     \<Rightarrow> state \<times> pil_image option \<times> bbox" where
  "crop_detect E zoom page_image st =
     (case st of (s, image_var) \<Rightarrow>
       (case GetComponentImages E BLOCK s of
          (comps, s) \<Rightarrow>
            crop_blocks E zoom comps
              (s, image_var,
               (int (im_width E page_image), int (im_height E page_image), 0, 0))))"

definition crop_process_file ::
  "env \<Rightarrow> processor \<Rightarrow> int \<Rightarrow> nat \<Rightarrow> input_file \<Rightarrow> state \<times> pil_image option
     \<Rightarrow> (error \<times> state) + (state \<times> pil_image option)" where
  "crop_process_file E P padding n f st =
     (case crop_prepare E padding n f st of
        Inl err \<Rightarrow> Inl err
      | Inr (doc, page_image, zoom, s) \<Rightarrow>
          (case crop_detect E zoom page_image (s, snd st) of
             (s, image_var, ext) \<Rightarrow>
               (case crop_annotate E P padding n f page_image ext (Page doc, s) of
                  (pg, s) \<Rightarrow>
                    Inr (add_output_file E P n f (doc\<lparr>Page := pg\<rparr>) s, image_var))))"

primrec crop_files ::
  "env \<Rightarrow> processor \<Rightarrow> int \<Rightarrow> nat \<Rightarrow> input_file list \<Rightarrow> state \<times> pil_image option
     \<Rightarrow> (error \<times> state) + (state \<times> pil_image option)" where
  "crop_files E P padding n [] st = Inr st"
| "crop_files E P padding n (f # fs) st =
     (case crop_process_file E P padding n f st of
        Inl err \<Rightarrow> Inl err
      | Inr st' \<Rightarrow> crop_files E P padding (Suc n) fs st')"

text \<open>\<^verbatim>\<open>TesserocrCrop.process\<close>: one engine instance around the loop over the files.\<close>

definition crop_process :: "env \<Rightarrow> processor \<Rightarrow> int \<Rightarrow> world \<Rightarrow> error option \<times> world" where
  "crop_process E P padding w =
     (let s = PyTessBaseAPI (TESSDATA_PREFIX E) None None None w;
          s = SetVariable ''textord_tabfind_find_tables'' ''0'' s
      in case crop_files E P padding 0 (input_files P) (s, None) of
           Inl (err, s) \<Rightarrow> (Some err, tess_exit s)
         | Inr (s, _) \<Rightarrow> (None, tess_exit s))"

section \<open>The line segmentation processor (\<^verbatim>\<open>segment_line.py\<close>)\<close>

definition TOOL_segment_line :: string where
  "TOOL_segment_line = ''ocrd-tesserocr-segment-line''"

text \<open>Lines 92 to 98: one detected line, moved by the region's offset and added.\<close>

definition segment_line_add :: "env \<Rightarrow> xywh \<Rightarrow> region \<Rightarrow> nat \<times> component \<Rightarrow> region" where
  "segment_line_add E region_xywh r lc =
     (case lc of (line_no, c) \<Rightarrow>
       (let line_id' = region_id r @ ''_line'' @ fmt_04d (int line_no);
            line_xywh = c_xywh c;
            line_xywh = line_xywh\<lparr>box_x := box_x line_xywh + box_x region_xywh\<rparr>;
            line_xywh = line_xywh\<lparr>box_y := box_y line_xywh + box_y region_xywh\<rparr>;
            line_points' = points_from_xywh E line_xywh
        in r\<lparr>TextLine := TextLine r @
               [\<lparr>line_id = line_id', line_points = line_points'\<rparr>]\<rparr>))"

text \<open>Lines 81 to 98: the body of the loop over the text regions.\<close>

definition segment_line_region ::
  "env \<Rightarrow> bool \<Rightarrow> pil_image \<Rightarrow> xywh \<Rightarrow> region \<Rightarrow> state \<Rightarrow> region \<times> state" where
  "segment_line_region E overwrite_lines page_image page_xywh r s =
     (case (if TextLine r \<noteq> [] then
              (if overwrite_lines
               then (r\<lparr>TextLine := []\<rparr>,
                     LOG INFO ''removing existing TextLines in region %s''
                       [AStr (region_id r)] s)
               else (r, LOG WARNING ''keeping existing TextLines in region %s''
                          [AStr (region_id r)] s))
            else (r, s)) of
        (r, s) \<Rightarrow>
          (case image_from_region E r page_image page_xywh of
             (region_image, region_xywh) \<Rightarrow>
               (case GetComponentImages E TEXTLINE
                       (SetImage region_image
                          (LOG DEBUG ''Detecting lines in region %s''
                             [AStr (region_id r)] s)) of
                  (comps, s) \<Rightarrow>
                    (foldl (segment_line_add E region_xywh) r (enumerate 0 comps), s))))"

primrec segment_line_regions ::
  "env \<Rightarrow> bool \<Rightarrow> pil_image \<Rightarrow> xywh \<Rightarrow> region list \<Rightarrow> state \<Rightarrow> region list \<times> state" where
  "segment_line_regions E overwrite_lines page_image page_xywh [] s = ([], s)"
| "segment_line_regions E overwrite_lines page_image page_xywh (r # rs) s =
     (case segment_line_region E overwrite_lines page_image page_xywh r s of
        (r', s) \<Rightarrow>
          (case segment_line_regions E overwrite_lines page_image page_xywh rs s of
             (rs', s) \<Rightarrow> (r' # rs', s)))"

text \<open>
  The body of the loop over the input files, up to the output file.
  \<^verbatim>\<open>page_image.info.get('dpi', (0,0))[0]\<close> is read through \<open>im_info_dpi\<close>, zero
  when the image records none.
\<close>

definition segment_line_page ::
  "env \<Rightarrow> bool \<Rightarrow> input_file \<Rightarrow> state \<Rightarrow> pcgts \<times> state" where
  "segment_line_page E overwrite_lines f s =
     (case download_file f s of
        (doc, s) \<Rightarrow>
          (let doc = add_MetadataItem E TOOL_segment_line
                       [(''overwrite_lines'', PBool overwrite_lines)] doc;
               pg = Page doc;
               page_image = resolve_image_as_pil E (imageFilename pg);
               dpi = im_info_dpi E page_image;
               s = (if dpi \<noteq> 0 then SetVariable ''user_defined_dpi'' (str_int dpi) s
                    else s)
           in (case image_from_page E pg page_image (page_id_of f) of
                 (page_image, page_xywh) \<Rightarrow>
                   (case segment_line_regions E overwrite_lines page_image page_xywh
                           (TextRegion pg) s of
                      (rs, s) \<Rightarrow> (doc\<lparr>Page := pg\<lparr>TextRegion := rs\<rparr>\<rparr>, s)))))"

definition segment_line_process_file ::
  "env \<Rightarrow> processor \<Rightarrow> bool \<Rightarrow> nat \<Rightarrow> input_file \<Rightarrow> state \<Rightarrow> state" where
  "segment_line_process_file E P overwrite_lines n f s =
     (case segment_line_page E overwrite_lines f
             (LOG INFO ''INPUT FILE %i / %s'' [AInt (int n), AStr (page_id_of f)] s) of
        (doc, s) \<Rightarrow> add_output_file E P n f doc s)"

primrec segment_line_files ::
  "env \<Rightarrow> processor \<Rightarrow> bool \<Rightarrow> nat \<Rightarrow> input_file list \<Rightarrow> state \<Rightarrow> state" where
  "segment_line_files E P overwrite_lines n [] s = s"
| "segment_line_files E P overwrite_lines n (f # fs) s =
     segment_line_files E P overwrite_lines (Suc n) fs
       (segment_line_process_file E P overwrite_lines n f s)"

text \<open>\<^verbatim>\<open>TesserocrSegmentLine.process\<close>.\<close>

definition segment_line_process :: "env \<Rightarrow> processor \<Rightarrow> bool \<Rightarrow> world \<Rightarrow> world" where
  "segment_line_process E P overwrite_lines w =
     tess_exit
       (segment_line_files E P overwrite_lines 0 (input_files P)
          (PyTessBaseAPI (TESSDATA_PREFIX E) None None (Some SINGLE_BLOCK) w))"

section \<open>The deskew processor (\<^verbatim>\<open>deskew.py\<close>)\<close>

definition TOOL_deskew :: string where
  "TOOL_deskew = ''ocrd-tesserocr-deskew''"

definition FILEGRP_IMG_deskew :: string where
  "FILEGRP_IMG_deskew = ''OCR-D-IMG-DESKEW''"

definition script_table :: "(string \<times> string) list" where
  "script_table =
     [(''Arabic'', ''Arab - Arabic''),
      (''Armenian'', ''Armn - Armenian''),
      (''Bengali'', ''Armn - Armenian''),
      (''Canadian_Aboriginal'', ''Cans - Unified Canadian Aboriginal Syllabics''),
      (''Cherokee'', ''Cher - Cherokee''),
      (''Common'', ''Latn - Latin''),
      (''Cyrillic'', ''Cyrl - Cyrillic''),
      (''Devanagari'', ''Deva - Devanagari (Nagari)''),
      (''Ethiopic'', ''Ethi - Ethiopic''),
      (''Fraktur'', ''Latf - Latin (Fraktur variant)''),
      (''Georgian'', ''Geor - Georgian (Mkhedruli)''),
      (''Greek'', ''Grek - Greek''),
      (''Gujarati'', ''Gujr - Gujarati''),
      (''Gurmukhi'', ''Guru - Gurmukhi''),
      (''Han'', ''Hant - Han (Traditional variant)''),
      (''Hangul'', ''Hang - Hangul''),
      (''Hangul_vert'', ''Hang - Hangul''),
      (''HanS'', ''Hans - Han (Simplified variant)''),
      (''HanS_vert'', ''Hans - Han (Simplified variant)''),
      (''HanT'', ''Hant - Han (Traditional variant)''),
      (''HanT_vert'', ''Hant - Han (Traditional variant)''),
      (''Hebrew'', ''Hebr - Hebrew''),
      (''Hiragana'', ''Jpan - Japanese''),
      (''Japanese'', ''Jpan - Japanese''),
      (''Japanese_vert'', ''Jpan - Japanese''),
      (''Kannada'', ''Knda - Kannada''),
      (''Katakana'', ''Jpan - Japanese''),
      (''Khmer'', ''Khmr - Khmer''),
      (''Lao'', ''Laoo - Lao''),
      (''Latin'', ''Latn - Latin''),
      (''Malayalam'', ''Mlym - Malayalam''),
      (''Myanmar'', ''Mymr - Myanmar (Burmese)''),
      (''Oriya'', ''Orya - Oriya''),
      (''Sinhala'', ''Sinh - Sinhala''),
      (''Syriac'', ''Syrc - Syriac''),
      (''Tamil'', ''Taml - Tamil''),
      (''Telugu'', ''Telu - Telugu''),
      (''Thaana'', ''Thaa - Thaana''),
      (''Thai'', ''Thai - Thai''),
      (''Tibetan'', ''Tibt - Tibetan''),
      (''Vietnamese'', ''Tavt - Tai Viet'')]"

text \<open>\<^verbatim>\<open>{...}.get(key, default)\<close> on a table.\<close>

definition dict_get :: "('k \<times> 'v) list \<Rightarrow> 'k \<Rightarrow> 'v \<Rightarrow> 'v" where
  "dict_get table k d = (case map_of table k of None \<Rightarrow> d | Some v \<Rightarrow> v)"

text \<open>\<^verbatim>\<open>math.pi\<close> is the double nearest to \<open>\<pi>\<close>.\<close>

definition math_pi :: real where
  "math_pi = 884279719003555 / 281474976710656"

text \<open>\<^verbatim>\<open>deskew_angle *= - 180 / math.pi\<close>: the factor is finite and negative.\<close>

fun to_degrees :: "pyfloat \<Rightarrow> pyfloat" where
  "to_degrees NaN = NaN"
| "to_degrees PInf = NInf"
| "to_degrees NInf = PInf"
| "to_degrees (Num r) = Num (r * (- 180 / math_pi))"

text \<open>\<^verbatim>\<open>int(x)\<close> of a finite float: towards zero.\<close>

definition py_int :: "real \<Rightarrow> int" where
  "py_int r = (if r < 0 then - \<lfloor>- r\<rfloor> else \<lfloor>r\<rfloor>)"

text \<open>\<^verbatim>\<open>a % m\<close> on floats, for a positive \<open>m\<close>.\<close>

definition py_fmod :: "real \<Rightarrow> real \<Rightarrow> real" where
  "py_fmod a m = a - m * of_int \<lfloor>a / m\<rfloor>"

text \<open>
  Lines 137 to 203 of \<^verbatim>\<open>_process_segment\<close>: the result of orientation and script
  detection. \<^verbatim>\<open>angle\<close> leaves this part as the float zero or as the integer the
  engine gave; it is an integer here.
\<close>

definition deskew_osd ::
  "seg_kind \<Rightarrow> string \<Rightarrow> osr option \<Rightarrow> 'a segment_scheme \<times> string \<times> state
     \<Rightarrow> (error \<times> state) + ('a segment_scheme \<times> string \<times> int \<times> state)" where
  "deskew_osd kind where' res acc =
     (case acc of (seg, comments', s) \<Rightarrow>
       (case res of
          None \<Rightarrow> Inr (seg, comments', 0, LOG WARNING ''no OSD result in %s'' [AStr where'] s)
        | Some r \<Rightarrow>
            (if isnan (orient_conf r) then Inl (AssertionError, s)
             else
               (case (if float_less (orient_conf r) 10 then
                        (0, comments',
                         LOG INFO
                           ''ignoring OSD orientation result %d due to low confidence %.0f in %s''
                           [AInt (orient_deg r), AFloat (orient_conf r), AStr where'] s)
                      else
                        (orient_deg r,
                         (if orient_deg r \<noteq> 0
                          then comments' @ '',rotated-'' @ str_int (orient_deg r)
                          else comments'),
                         LOG INFO
                           ''applying OSD orientation result %d with high confidence %.0f in %s''
                           [AInt (orient_deg r), AFloat (orient_conf r), AStr where'] s)) of
                  (angle, comments', s) \<Rightarrow>
                    (if isnan (script_conf r) then Inl (AssertionError, s)
                     else if float_less (script_conf r) 10 then
                       Inr (seg, comments', angle,
                            LOG INFO
                              ''ignoring OSD script result %s due to low confidence %.0f in %s''
                              [AStr (script_name r), AFloat (script_conf r), AStr where'] s)
                     else
                       Inr ((if kind = TextRegionType \<or> kind = PageType
                             then seg\<lparr>primaryScript :=
                                    Some (dict_get script_table (script_name r)
                                            ''Latn - Latin'')\<rparr>
                             else seg),
                            comments', angle,
                            LOG INFO
                              ''applying OSD script  result %s with high confidence %.0f in %s''
                              [AStr (script_name r), AFloat (script_conf r), AStr where'] s))))))"

text \<open>
  Lines 207 to 266: the result of layout analysis. \<^verbatim>\<open>int(deskew_angle)\<close> raises
  on NaN and on an infinity; past it the angle is finite.
\<close>

definition deskew_layout ::
  "seg_kind \<Rightarrow> string \<Rightarrow> layout_orientation option
     \<Rightarrow> 'a segment_scheme \<times> pil_image \<times> string \<times> int \<times> state
     \<Rightarrow> (error \<times> state) + ('a segment_scheme \<times> pil_image \<times> string \<times> state)" where
  "deskew_layout kind where' res acc =
     (case acc of (seg, img, comments', angle, s) \<Rightarrow>
       (case res of
          None \<Rightarrow> Inr (seg, img, comments', s)
        | Some lo \<Rightarrow>
            (case to_degrees (lo_deskew_angle lo) of
               NaN \<Rightarrow> Inl (ValueError, s)
             | PInf \<Rightarrow> Inl (OverflowError, s)
             | NInf \<Rightarrow> Inl (OverflowError, s)
             | Num deskew_angle \<Rightarrow>
                 (let comments' = (if py_int deskew_angle \<noteq> 0
                                   then comments' @ '',deskewed'' else comments');
                      s = LOG INFO ''orientation/deskewing for %s: %s / %s / %s / %.3f''
                            [AStr where', AObj, AObj, AObj, AFloat (Num deskew_angle)] s;
                      angle2 = (case lo_orientation lo of
                                  PAGE_RIGHT \<Rightarrow> 270
                                | PAGE_DOWN \<Rightarrow> 180
                                | PAGE_LEFT \<Rightarrow> 90
                                | _ \<Rightarrow> 0);
                      s = (if angle2 \<noteq> angle then
                             LOG WARNING
                               ''inconsistent angles from layout analysis (%d) and orientation detection (%d) in %s''
                               [AInt angle2, AInt angle, AStr where'] s
                           else s);
                      angle' = of_int angle + deskew_angle
                  in (case (if angle' \<noteq> 0 then
                              (seg\<lparr>orientation :=
                                     Some (180 - py_fmod (180 - angle') 360)\<rparr>,
                               Rotate img (- angle'),
                               LOG DEBUG ''About to rotate %s by %.2f clockwise''
                                 [AStr where', AFloat (Num angle')] s)
                            else (seg, img, s)) of
                        (seg, img, s) \<Rightarrow>
                          Inr ((if kind = TextRegionType \<or> kind = PageType
                                then seg\<lparr>readingDirection :=
                                       Some (case lo_writing_direction lo of
                                               LEFT_TO_RIGHT \<Rightarrow> ''left-to-right''
                                             | RIGHT_TO_LEFT \<Rightarrow> ''right-to-left''
                                             | TOP_TO_BOTTOM \<Rightarrow> ''top-to-bottom''
                                             | _ \<Rightarrow> ''bottom-to-top''),
                                     textLineOrder :=
                                       Some (case lo_textline_order lo of
                                               LEFT_TO_RIGHT \<Rightarrow> ''left-to-right''
                                             | RIGHT_TO_LEFT \<Rightarrow> ''right-to-left''
                                             | TOP_TO_BOTTOM \<Rightarrow> ''top-to-bottom''
                                             | _ \<Rightarrow> ''bottom-to-top'')\<rparr>
                                else seg),
                               img, comments', s))))))"

text \<open>
  \<^verbatim>\<open>TesserocrDeskew._process_segment\<close>; \<open>kind\<close> is the class of the segment, which
  the source tests with \<^verbatim>\<open>isinstance\<close>.
\<close>

definition initial_comments :: "seg_kind \<Rightarrow> xywh \<Rightarrow> string" where
  "initial_comments kind xywh' =
     (if kind = PageType \<and> box_x xywh' = 0 \<and> box_y xywh' = 0 then [] else ''cropped'')"

definition process_segment ::
  "env \<Rightarrow> seg_kind \<Rightarrow> 'a segment_scheme \<Rightarrow> pil_image \<Rightarrow> xywh \<Rightarrow> string \<Rightarrow> string option
     \<Rightarrow> string \<Rightarrow> state \<Rightarrow> (error \<times> state) + ('a segment_scheme \<times> state)" where
  "process_segment E kind seg img xywh' where' page_id file_id s =
     (case DetectOrientationScript E (SetImage img s) of
        (res, s) \<Rightarrow>
          (case deskew_osd kind where' res (seg, initial_comments kind xywh', s) of
             Inl err \<Rightarrow> Inl err
           | Inr (seg, comments', angle, s) \<Rightarrow>
               (case AnalyseLayout E s of
                  (lay, s) \<Rightarrow>
                    (case deskew_layout kind where' lay (seg, img, comments', angle, s) of
                       Inl err \<Rightarrow> Inl err
                     | Inr (seg, img, comments', s) \<Rightarrow>
                         (case save_image_file E img file_id page_id
                                 FILEGRP_IMG_deskew s of
                            (file_path, s) \<Rightarrow>
                              Inr (seg\<lparr>AlternativeImage := AlternativeImage seg @
                                         [\<lparr>filename = file_path,
                                           comments = comments'\<rparr>]\<rparr>, s))))))"

text \<open>Lines 104 to 109: the loop over the regions of one kind.\<close>

primrec deskew_regions ::
  "env \<Rightarrow> seg_kind \<Rightarrow> pil_image \<Rightarrow> xywh \<Rightarrow> string option \<Rightarrow> string \<Rightarrow> region list
     \<Rightarrow> state \<Rightarrow> (error \<times> state) + (region list \<times> state)" where
  "deskew_regions E kind page_image page_xywh page_id file_id [] s = Inr ([], s)"
| "deskew_regions E kind page_image page_xywh page_id file_id (r # rs) s =
     (case image_from_segment E r page_image page_xywh of
        (region_image, region_xywh) \<Rightarrow>
          (case process_segment E kind r region_image region_xywh
                  (''region '' @ [CHR 0x27] @ region_id r @ [CHR 0x27]) page_id
                  (file_id @ ''_'' @ region_id r) s of
             Inl err \<Rightarrow> Inl err
           | Inr (r', s) \<Rightarrow>
               (case deskew_regions E kind page_image page_xywh page_id file_id rs s of
                  Inl err \<Rightarrow> Inl err
                | Inr (rs', s) \<Rightarrow> Inr (r' # rs', s))))"

text \<open>
  The body of the loop over the input files, up to the output file: the text regions
  come before the table regions, as in \<^verbatim>\<open>get_TextRegion() + get_TableRegion()\<close>.
\<close>

definition deskew_page ::
  "env \<Rightarrow> processor \<Rightarrow> string \<Rightarrow> nat \<Rightarrow> input_file \<Rightarrow> state
     \<Rightarrow> (error \<times> state) + (pcgts \<times> state)" where
  "deskew_page E P oplevel n f s =
     (let file_id = str_replace (file_ID f) (input_file_grp P) FILEGRP_IMG_deskew;
          page_id = page_id_of f
      in (case download_file f
                 (LOG INFO ''INPUT FILE %i / %s'' [AInt (int n), AStr page_id] s) of
            (doc, s) \<Rightarrow>
              (let doc = add_MetadataItem E TOOL_deskew
                           [(''operation_level'', PStr oplevel)] doc;
                   pg = Page doc
               in (case image_from_page_info E pg page_id of
                     (page_image, page_xywh, page_image_info) \<Rightarrow>
                       (let s = (if xResolution page_image_info \<noteq> 1 then
                                   (let dpi = xResolution page_image_info;
                                        dpi = (if resolutionUnit page_image_info = ''cm''
                                               then dpi_from_cm dpi else dpi)
                                    in SetVariable ''user_defined_dpi'' (str_int dpi) s)
                                 else s);
                            s = LOG INFO ''Deskewing on %s level in page %s''
                                  [AStr oplevel, AStr page_id] s
                        in if oplevel = ''page'' then
                             (case process_segment E PageType pg page_image page_xywh
                                     (''page '' @ [CHR 0x27] @ page_id @ [CHR 0x27])
                                     (file_pageId f) file_id s of
                                Inl err \<Rightarrow> Inl err
                              | Inr (pg, s) \<Rightarrow> Inr (doc\<lparr>Page := pg\<rparr>, s))
                           else
                             (let s = (if TextRegion pg @ TableRegion pg = [] then
                                         LOG WARNING ''Page %s contains no text regions''
                                           [AStr page_id] s
                                       else s)
                              in (case deskew_regions E TextRegionType page_image page_xywh
                                         (file_pageId f) file_id (TextRegion pg) s of
                                    Inl err \<Rightarrow> Inl err
                                  | Inr (trs, s) \<Rightarrow>
                                      (case deskew_regions E TableRegionType page_image
                                              page_xywh (file_pageId f) file_id
                                              (TableRegion pg) s of
                                         Inl err \<Rightarrow> Inl err
                                       | Inr (tbs, s) \<Rightarrow>
                                           Inr (doc\<lparr>Page := pg\<lparr>TextRegion := trs,
                                                                TableRegion := tbs\<rparr>\<rparr>,
                                                s)))))))))"

definition deskew_process_file ::
  "env \<Rightarrow> processor \<Rightarrow> string \<Rightarrow> nat \<Rightarrow> input_file \<Rightarrow> state \<Rightarrow> (error \<times> state) + state" where
  "deskew_process_file E P oplevel n f s =
     (case deskew_page E P oplevel n f s of
        Inl err \<Rightarrow> Inl err
      | Inr (doc, s) \<Rightarrow> Inr (add_output_file E P n f doc s))"

primrec deskew_files ::
  "env \<Rightarrow> processor \<Rightarrow> string \<Rightarrow> nat \<Rightarrow> input_file list \<Rightarrow> state
     \<Rightarrow> (error \<times> state) + state" where
  "deskew_files E P oplevel n [] s = Inr s"
| "deskew_files E P oplevel n (f # fs) s =
     (case deskew_process_file E P oplevel n f s of
        Inl err \<Rightarrow> Inl err
      | Inr s' \<Rightarrow> deskew_files E P oplevel (Suc n) fs s')"

text \<open>\<^verbatim>\<open>TesserocrDeskew.process\<close>.\<close>

definition deskew_process ::
  "env \<Rightarrow> processor \<Rightarrow> string \<Rightarrow> world \<Rightarrow> error option \<times> world" where
  "deskew_process E P oplevel w =
     (case deskew_files E P oplevel 0 (input_files P)
             (PyTessBaseAPI (TESSDATA_PREFIX E) (Some ''osd'')
                (Some TESSERACT_LSTM_COMBINED) (Some AUTO_OSD) w) of
        Inl (err, s) \<Rightarrow> (Some err, tess_exit s)
      | Inr s \<Rightarrow> (None, tess_exit s))"

section \<open>The claims' own notions\<close>

text \<open>
  The size filter of the crop processor as claim C5 words it, over exact quotients: a
  block contributes when its binarization is not empty and the width and the height
  of its binarized bounding box are both at least \<open>25 / zoom\<close>, where \<open>zoom\<close> is 300
  divided by the resolution in dots per inch when one is recorded, dots per
  centimetre being multiplied by 2.54 and rounded, and 1 otherwise.
\<close>

definition stated_contributes :: "env \<Rightarrow> real \<Rightarrow> component \<Rightarrow> bool" where
  "stated_contributes E zoom c =
     (case im_getbbox E (c_image c) of
        None \<Rightarrow> False
      | Some (b0, b1, b2, b3) \<Rightarrow>
          25 / zoom \<le> of_int (b2 - b0) \<and> 25 / zoom \<le> of_int (b3 - b1))"

definition stated_dpi :: "env \<Rightarrow> pil_image \<Rightarrow> int" where
  "stated_dpi E img =
     (if resolutionUnit (OcrdExif E img) = ''cm''
      then py_round (of_int (xResolution (OcrdExif E img)) * (254 / 100))
      else xResolution (OcrdExif E img))"

definition stated_zoom :: "env \<Rightarrow> pil_image \<Rightarrow> real" where
  "stated_zoom E img =
     (if xResolution (OcrdExif E img) \<noteq> 1 then 300 / of_int (stated_dpi E img) else 1)"

text \<open>
  The same filter with the quotients as doubles: the zoom factor is the double
  nearest to 300 divided by the resolution, and the threshold the double nearest to
  25 divided by that zoom factor.
\<close>

definition spec_contributes :: "env \<Rightarrow> real \<Rightarrow> component \<Rightarrow> bool" where
  "spec_contributes E zoom c =
     (case im_getbbox E (c_image c) of
        None \<Rightarrow> False
      | Some (b0, b1, b2, b3) \<Rightarrow>
          fl (25 / zoom) \<le> of_int (b2 - b0) \<and> fl (25 / zoom) \<le> of_int (b3 - b1))"

definition spec_dpi :: "env \<Rightarrow> pil_image \<Rightarrow> int" where
  "spec_dpi E img =
     (if resolutionUnit (OcrdExif E img) = ''cm''
      then dpi_from_cm (xResolution (OcrdExif E img))
      else xResolution (OcrdExif E img))"

definition spec_zoom :: "env \<Rightarrow> pil_image \<Rightarrow> real" where
  "spec_zoom E img =
     (if xResolution (OcrdExif E img) \<noteq> 1 then fl (300 / of_int (spec_dpi E img)) else 1)"

text \<open>A bounding box that lies within the page image.\<close>

definition within_page :: "env \<Rightarrow> pil_image \<Rightarrow> bbox \<Rightarrow> bool" where
  "within_page E page_image b =
     (case b of (left, top', right, bottom) \<Rightarrow>
        0 \<le> left \<and> right \<le> int (im_width E page_image) \<and>
        0 \<le> top' \<and> bottom \<le> int (im_height E page_image))"

text \<open>The test of line 149: the extent found is a valid page extent.\<close>

definition valid_extent :: "bbox \<Rightarrow> bool" where
  "valid_extent ext =
     (case ext of (min_x, min_y, max_x, max_y) \<Rightarrow> min_x < max_x \<and> min_y < max_y)"

text \<open>A box moved by the offset of another.\<close>

definition translate :: "xywh \<Rightarrow> xywh \<Rightarrow> xywh" where
  "translate region_xywh line_xywh =
     \<lparr>box_x = box_x line_xywh + box_x region_xywh,
      box_y = box_y line_xywh + box_y region_xywh,
      box_w = box_w line_xywh, box_h = box_h line_xywh\<rparr>"

text \<open>The lines kept in a region before detection.\<close>

definition kept_lines :: "bool \<Rightarrow> region \<Rightarrow> text_line list" where
  "kept_lines overwrite_lines r = (if overwrite_lines then [] else TextLine r)"

text \<open>
  What the deskew processor appends to the comments: nothing, or notes that each
  start with a comma.
\<close>

definition annotation :: "string \<Rightarrow> bool" where
  "annotation notes = (notes = [] \<or> hd notes = CHR '','')"

text \<open>
  What a processor leaves of a region: the deskew processor keeps its lines and adds
  to its images, the line segmentation processor keeps its images and adds to the
  lines it keeps.
\<close>

definition region_kept :: "region \<Rightarrow> region \<Rightarrow> bool" where
  "region_kept r r' =
     (region_id r' = region_id r \<and> region_points r' = region_points r \<and>
      TextLine r' = TextLine r \<and> prefix (AlternativeImage r) (AlternativeImage r'))"


text \<open>The document of the PAGE file written last.\<close>

definition written :: "state \<Rightarrow> pcgts \<Rightarrow> bool" where
  "written s doc = (files s \<noteq> [] \<and> out_content (last (files s)) = PageXML doc)"

text \<open>The events that fetch an input file.\<close>

definition is_download :: "event \<Rightarrow> bool" where
  "is_download e = (case e of DownloadFile _ \<Rightarrow> True | _ \<Rightarrow> False)"

text \<open>
  From one state to a later one of the same engine instance: the trace grows by
  events that neither open nor end an engine instance, and \<open>ds\<close> are the downloads
  among them.
\<close>

definition within_instance :: "state \<Rightarrow> state \<Rightarrow> event list \<Rightarrow> bool" where
  "within_instance s s' ds =
     (\<exists>evs. trace s' = trace s @ evs \<and> TessInit \<notin> set evs \<and> TessEnd \<notin> set evs \<and>
            filter is_download evs = ds)"

definition downloads :: "input_file list \<Rightarrow> event list" where
  "downloads fs = map (\<lambda>f. DownloadFile (file_ID f)) fs"

text \<open>
  A run with one engine instance: the instance is opened first and ended last, no
  other instance is opened or ended in between, and in between the input files are
  fetched one after the other in their order, all of them when the run completes.
\<close>

definition single_engine_run :: "world \<Rightarrow> world \<Rightarrow> input_file list \<Rightarrow> bool \<Rightarrow> bool" where
  "single_engine_run w w' fs completed =
     (\<exists>evs k. trace w' = trace w @ [TessInit] @ evs @ [TessEnd] \<and>
        TessInit \<notin> set evs \<and> TessEnd \<notin> set evs \<and> k \<le> length fs \<and>
        filter is_download evs = downloads (take k fs) \<and>
        (completed \<longrightarrow> k = length fs))"


section \<open>A concrete environment and run\<close>

text \<open>
  One instance of the environment, with the helpers behaving as their names say, and
  a workspace of two pages: the engine finds one block on the first page and none on
  the second, which already has a text region with a line.
\<close>

definition example_bbox_from_xywh :: "xywh \<Rightarrow> bbox" where
  "example_bbox_from_xywh b = (box_x b, box_y b, box_x b + box_w b, box_y b + box_h b)"

definition example_points_from_bbox :: "int \<Rightarrow> int \<Rightarrow> int \<Rightarrow> int \<Rightarrow> string" where
  "example_points_from_bbox x0 y0 x1 y1 =
     str_int x0 @ '','' @ str_int y0 @ '' '' @ str_int x1 @ '','' @ str_int y0 @ '' '' @
     str_int x1 @ '','' @ str_int y1 @ '' '' @ str_int x0 @ '','' @ str_int y1"

definition example_block :: component where
  "example_block =
     \<lparr>c_image = Named ''block'',
      c_xywh = \<lparr>box_x = 100, box_y = 200, box_w = 500, box_h = 700\<rparr>,
      c_index = 0, c_para = 0\<rparr>"

definition example_small_block :: component where
  "example_small_block =
     \<lparr>c_image = Named ''small'',
      c_xywh = \<lparr>box_x = 900, box_y = 1400, box_w = 20, box_h = 10\<rparr>,
      c_index = 1, c_para = 0\<rparr>"

definition example_empty_block :: component where
  "example_empty_block =
     \<lparr>c_image = Named ''empty'',
      c_xywh = \<lparr>box_x = 5, box_y = 5, box_w = 900, box_h = 900\<rparr>,
      c_index = 2, c_para = 0\<rparr>"

definition example_line :: component where
  "example_line =
     \<lparr>c_image = Named ''line'',
      c_xywh = \<lparr>box_x = 3, box_y = 4, box_w = 400, box_h = 30\<rparr>,
      c_index = 0, c_para = 0\<rparr>"

definition example_env :: env where
  "example_env =
     \<lparr>im_width = (\<lambda>_. 1000),
      im_height = (\<lambda>_. 1500),
      im_getbbox = (\<lambda>img. if img = Named ''empty'' then None
                           else if img = Named ''small'' then Some (0, 0, 20, 10)
                           else Some (0, 0, 500, 700)),
      im_info_dpi = (\<lambda>_. 0),
      OcrdExif = (\<lambda>_. \<lparr>xResolution = 300, resolutionUnit = ''inches''\<rparr>),
      resolve_image_as_pil = Named,
      tess_GetComponentImages =
        (\<lambda>t r. if r = BLOCK \<and> api_image t = Some (Named ''page1.tif'')
               then [example_block, example_small_block, example_empty_block]
               else if r = TEXTLINE \<and> api_image t = Some (Named ''region1'')
               then [example_line]
               else []),
      tess_DetectOrientationScript =
        (\<lambda>t. if api_image t = Some (Named ''page1.tif'')
             then Some \<lparr>orient_deg = 90, orient_conf = Num 15,
                        script_name = ''Fraktur'', script_conf = Num 12\<rparr>
             else if api_image t = Some (Named ''page2.tif'')
             then Some \<lparr>orient_deg = 0, orient_conf = NaN,
                        script_name = ''Latin'', script_conf = NaN\<rparr>
             else None),
      tess_AnalyseLayout =
        (\<lambda>t. if api_image t = Some (Named ''page1.tif'')
             then Some \<lparr>lo_orientation = PAGE_UP, lo_writing_direction = LEFT_TO_RIGHT,
                        lo_textline_order = TOP_TO_BOTTOM, lo_deskew_angle = Num 0\<rparr>
             else None),
      bbox_from_xywh = example_bbox_from_xywh,
      bbox_from_points = (\<lambda>_. (10, 20, 110, 220)),
      points_from_bbox = example_points_from_bbox,
      points_from_xywh =
        (\<lambda>b. case example_bbox_from_xywh b of
                (x0, y0, x1, y1) \<Rightarrow> example_points_from_bbox x0 y0 x1 y1),
      image_from_page =
        (\<lambda>pg img page_id. (img, \<lparr>box_x = 0, box_y = 0, box_w = 1000, box_h = 1500\<rparr>)),
      image_from_page_info =
        (\<lambda>pg page_id. (Named (imageFilename pg),
                        \<lparr>box_x = 0, box_y = 0, box_w = 1000, box_h = 1500\<rparr>,
                        \<lparr>xResolution = 300, resolutionUnit = ''inches''\<rparr>)),
      image_from_region =
        (\<lambda>r img b. (Named (region_id r),
                     \<lparr>box_x = 10, box_y = 20, box_w = 100, box_h = 200\<rparr>)),
      image_from_segment =
        (\<lambda>r img b. (Named (region_id r),
                     \<lparr>box_x = 10, box_y = 20, box_w = 100, box_h = 200\<rparr>)),
      image_file_path = (\<lambda>grp file_id. grp @ ''/'' @ file_id @ ''.png''),
      concat_padded = (\<lambda>grp n. grp @ ''_'' @ fmt_04d (int n)),
      TESSDATA_PREFIX = ''/usr/share/tessdata'',
      tool_step = (\<lambda>_. ''preprocessing/optimization'')\<rparr>"

definition example_segment :: segment where
  "example_segment =
     \<lparr>AlternativeImage = [], orientation = None, primaryScript = None,
      readingDirection = None, textLineOrder = None\<rparr>"

definition example_region :: region where
  "example_region =
     \<lparr>AlternativeImage =
        [\<lparr>filename = ''OCR-D-IMG-BIN/region1.png'', comments = ''binarized''\<rparr>],
      orientation = None, primaryScript = None,
      readingDirection = None, textLineOrder = None,
      region_id = ''region1'', region_points = ''10,20 110,20 110,220 10,220'',
      TextLine = [\<lparr>line_id = ''old_line'', line_points = ''10,20 110,20 110,50 10,50''\<rparr>]\<rparr>"

definition example_table :: region where
  "example_table =
     \<lparr>AlternativeImage = [], orientation = None, primaryScript = None,
      readingDirection = None, textLineOrder = None,
      region_id = ''table1'', region_points = ''10,300 110,300 110,400 10,400'',
      TextLine = []\<rparr>"

definition example_page1 :: input_file where
  "example_page1 =
     \<lparr>file_ID = ''OCR-D-SEG_0001'', file_pageId = Some ''P0001'',
      file_pcgts =
        \<lparr>Metadata = [],
         Page = \<lparr>AlternativeImage = [], orientation = None, primaryScript = None,
                 readingDirection = None, textLineOrder = None,
                 imageFilename = ''page1.tif'', Border = None,
                 TextRegion = [], TableRegion = []\<rparr>\<rparr>\<rparr>"

definition example_page2 :: input_file where
  "example_page2 =
     \<lparr>file_ID = ''OCR-D-SEG_0002'', file_pageId = Some ''P0002'',
      file_pcgts =
        \<lparr>Metadata =
           [\<lparr>item_type = ''processingStep'', item_name = ''layout/segmentation/region'',
             item_value = ''ocrd-tesserocr-segment-region'', item_Labels = []\<rparr>],
         Page = \<lparr>AlternativeImage =
                   [\<lparr>filename = ''OCR-D-IMG-BIN/page2.png'', comments = ''binarized''\<rparr>],
                 orientation = None, primaryScript = None,
                 readingDirection = None, textLineOrder = None,
                 imageFilename = ''page2.tif'', Border = Some ''0,0 9,0 9,9 0,9'',
                 TextRegion = [example_region], TableRegion = [example_table]\<rparr>\<rparr>\<rparr>"

definition example_processor :: processor where
  "example_processor =
     \<lparr>input_file_grp = ''OCR-D-SEG'', output_file_grp = ''OCR-D-OUT'',
      input_files = [example_page1, example_page2]\<rparr>"

definition empty_world :: world where
  "empty_world = \<lparr>LOG_records = [], files = [], trace = []\<rparr>"

definition example_state :: state where
  "example_state = PyTessBaseAPI ''/usr/share/tessdata'' None None None empty_world"

text \<open>
  The same environment for a page image that records 137 dots per centimetre, and a
  block whose binarization is 29 pixels wide and high.
\<close>

definition example_env_cm :: env where
  "example_env_cm =
     example_env
       \<lparr>im_getbbox := (\<lambda>img. Some (0, 0, 29, 29)),
        OcrdExif := (\<lambda>img. \<lparr>xResolution = 137, resolutionUnit = ''cm''\<rparr>)\<rparr>"

definition example_block29 :: component where
  "example_block29 =
     \<lparr>c_image = Named ''block29'',
      c_xywh = \<lparr>box_x = 100, box_y = 200, box_w = 29, box_h = 29\<rparr>,
      c_index = 0, c_para = 0\<rparr>"

section \<open>Properties\<close>

subsection \<open>Effects of the basic operations\<close>

lemma files_LOG [simp]: "files (LOG l m a s) = files s"
  by (simp add: LOG_def)
lemma trace_LOG [simp]: "trace (LOG l m a s) = trace s"
  by (simp add: LOG_def)
lemma tess_LOG [simp]: "tess (LOG l m a s) = tess s"
  by (simp add: LOG_def)
lemma records_LOG [simp]: "LOG_records (LOG l m a s) = LOG_records s @ [(l, m, a)]"
  by (simp add: LOG_def)

lemma files_SetVariable [simp]: "files (SetVariable k v s) = files s"
  by (simp add: SetVariable_def)
lemma records_SetVariable [simp]: "LOG_records (SetVariable k v s) = LOG_records s"
  by (simp add: SetVariable_def)
lemma files_SetImage [simp]: "files (SetImage i s) = files s"
  by (simp add: SetImage_def)
lemma records_SetImage [simp]: "LOG_records (SetImage i s) = LOG_records s"
  by (simp add: SetImage_def)
lemma files_SetPageSegMode [simp]: "files (SetPageSegMode m s) = files s"
  by (simp add: SetPageSegMode_def)
lemma records_SetPageSegMode [simp]: "LOG_records (SetPageSegMode m s) = LOG_records s"
  by (simp add: SetPageSegMode_def)
lemma files_GetComponentImages [simp]: "files (snd (GetComponentImages E r s)) = files s"
  by (simp add: GetComponentImages_def)
lemma records_GetComponentImages [simp]:
  "LOG_records (snd (GetComponentImages E r s)) = LOG_records s"
  by (simp add: GetComponentImages_def)
lemma files_download_file [simp]: "files (snd (download_file f s)) = files s"
  by (simp add: download_file_def)
lemma fst_download_file [simp]: "fst (download_file f s) = file_pcgts f"
  by (simp add: download_file_def)
lemma files_add_file [simp]: "files (add_file f s) = files s @ [f]"
  by (simp add: add_file_def)
lemma records_add_file [simp]: "LOG_records (add_file f s) = LOG_records s"
  by (simp add: add_file_def)

lemma crop_block_extent:
  "snd (snd (crop_block E zoom c (s, iv, ext))) =
     (if spec_contributes E zoom c then update_extent ext (bbox_from_xywh E (c_xywh c)) else ext)"
  by (auto simp: crop_block_def spec_contributes_def Let_def update_extent_def not_less
      split: prod.splits option.splits)

lemma crop_blocks_extent:
  "snd (snd (crop_blocks E zoom cs (s, iv, ext))) =
     foldl update_extent ext (map (\<lambda>c. bbox_from_xywh E (c_xywh c)) (filter (spec_contributes E zoom) cs))"
proof (induction cs arbitrary: s iv ext)
  case Nil
  then show ?case by simp
next
  case (Cons c cs)
  obtain s' iv' ext' where st: "crop_block E zoom c (s, iv, ext) = (s', iv', ext')"
    by (cases "crop_block E zoom c (s, iv, ext)") auto
  have "ext' = (if spec_contributes E zoom c then update_extent ext (bbox_from_xywh E (c_xywh c)) else ext)"
    using crop_block_extent [of E zoom c s iv ext] st by simp
  then show ?case using Cons.IH [of s' iv' ext'] st by simp
qed

lemma crop_block_files: "files (fst (crop_block E zoom c (s, iv, ext))) = files s"
  by (auto simp: crop_block_def Let_def split: prod.splits option.splits)

lemma crop_blocks_files: "files (fst (crop_blocks E zoom cs (s, iv, ext))) = files s"
proof (induction cs arbitrary: s iv ext)
  case Nil
  then show ?case by simp
next
  case (Cons c cs)
  obtain s' iv' ext' where st: "crop_block E zoom c (s, iv, ext) = (s', iv', ext')"
    by (cases "crop_block E zoom c (s, iv, ext)") auto
  then show ?case using Cons.IH [of s' iv' ext'] crop_block_files [of E zoom c s iv ext] by simp
qed

lemma crop_detect_files: "files (fst (crop_detect E zoom page_image (s, iv))) = files s"
  by (simp add: crop_detect_def GetComponentImages_def crop_blocks_files split: prod.splits)

lemma crop_resolution_Inr:
  "crop_resolution E img s = Inr (zoom, s1) \<Longrightarrow>
     zoom = spec_zoom E img \<and> files s1 = files s \<and> LOG_records s1 = LOG_records s"
  by (auto simp: crop_resolution_def spec_zoom_def spec_dpi_def Let_def split: if_splits)

lemma crop_existing_regions_Inr:
  "crop_existing_regions E pg iv s = Inr s1 \<Longrightarrow> files s1 = files s"
  by (auto simp: crop_existing_regions_def Let_def split: if_splits option.splits prod.splits)

lemma crop_prepare_Inr:
  assumes "crop_prepare E padding n f (s, iv) = Inr (doc, page_image, zoom, s1)"
  shows "doc = add_MetadataItem E TOOL_crop [(''padding'', PInt padding)] (file_pcgts f)"
    and "page_image = resolve_image_as_pil E (imageFilename (Page (file_pcgts f)))"
    and "zoom = spec_zoom E page_image"
    and "files s1 = files s"
  using assms
  by (auto simp: crop_prepare_def download_file_def Let_def add_MetadataItem_def
      split: sum.splits prod.splits option.splits
      dest!: crop_resolution_Inr crop_existing_regions_Inr)

lemma crop_block_total:
  "\<exists>s'. crop_block E zoom c (s, iv, ext) =
     (s', Some (c_image c),
      if spec_contributes E zoom c then update_extent ext (bbox_from_xywh E (c_xywh c)) else ext)"
  by (auto simp: crop_block_def spec_contributes_def Let_def update_extent_def not_less
      split: prod.splits option.splits)

lemma crop_blocks_image_var:
  "fst (snd (crop_blocks E zoom cs (s, iv, ext))) =
     (if cs = [] then iv else Some (c_image (last cs)))"
proof (induction cs arbitrary: s iv ext)
  case Nil
  then show ?case by simp
next
  case (Cons c cs)
  obtain s' where "crop_block E zoom c (s, iv, ext) =
     (s', Some (c_image c),
      if spec_contributes E zoom c then update_extent ext (bbox_from_xywh E (c_xywh c)) else ext)"
    using crop_block_total by blast
  then show ?case using Cons.IH by simp
qed

subsection \<open>The crop processor: which blocks count\<close>




text \<open>
  Claim C6, as stated, has the skip of a block with an empty binarization reported at
  warning level. The source reports it with \<^verbatim>\<open>LOG.debug\<close>: on the example block both
  records the loop body writes are debug records.
\<close>

theorem crop_empty_block_no_warning:
  "im_getbbox example_env (c_image example_empty_block) = None \<and>
   map fst (LOG_records (fst (crop_block example_env 1 example_empty_block
                                (example_state, None, (1000, 1500, 0, 0))))) = [DEBUG, DEBUG]"
  by (simp add: crop_block_def example_env_def example_empty_block_def Let_def
      example_bbox_from_xywh_def example_state_def PyTessBaseAPI_def empty_world_def
      world.defs state.defs split: prod.splits)

lemma crop_process_file_fails_in_prepare:
  "isl (crop_process_file E P padding n f st) = isl (crop_prepare E padding n f st)"
  by (auto simp: crop_process_file_def split: sum.splits prod.splits)

text \<open>
  Claim C6, amended. A block whose binarization is empty is skipped with a record at
  debug level: the extent is left as it was, the record names the block, the loop goes
  on with the remaining blocks, and the extent of the whole loop is the one it would
  have had without the block. No block ends the processing of a file: a file fails
  only where its preparation fails, before the engine is asked for blocks.
\<close>

theorem crop_empty_block_skipped:
  assumes "im_getbbox E (c_image c) = None"
  shows "\<exists>s' r. crop_block E zoom c (s, iv, ext) = (s', Some (c_image c), ext) \<and>
           LOG_records s' = LOG_records s @
             [r, (DEBUG, ''Ignoring region %s because its binarization is empty'',
                  [AStr (''region'' @ fmt_04d (c_index c))])] \<and>
           fst r = DEBUG \<and>
           crop_blocks E zoom (c # cs) (s, iv, ext) =
             crop_blocks E zoom cs (s', Some (c_image c), ext) \<and>
           snd (snd (crop_blocks E zoom (cs1 @ c # cs) (s0, iv0, ext0))) =
             snd (snd (crop_blocks E zoom (cs1 @ cs) (s0, iv0, ext0))) \<and>
           isl (crop_process_file E P padding n f st) = isl (crop_prepare E padding n f st)"
proof -
  have nc: "\<not> spec_contributes E zoom c"
    using assms by (simp add: spec_contributes_def)
  have "snd (snd (crop_blocks E zoom (cs1 @ c # cs) (s0, iv0, ext0))) =
        snd (snd (crop_blocks E zoom (cs1 @ cs) (s0, iv0, ext0)))"
    by (simp add: crop_blocks_extent nc)
  then show ?thesis
    using assms crop_process_file_fails_in_prepare [of E P padding n f st]
    by (auto simp: crop_block_def Let_def split: prod.splits)
qed

theorem crop_empty_block_skipped_witness:
  "\<exists>s'. crop_block example_env 1 example_empty_block (example_state, None, (1000, 1500, 0, 0)) =
           (s', Some (Named ''empty''), (1000, 1500, 0, 0)) \<and>
         snd (snd (crop_blocks example_env 1 [example_block, example_empty_block]
                     (example_state, None, (1000, 1500, 0, 0)))) =
         snd (snd (crop_blocks example_env 1 [example_block]
                     (example_state, None, (1000, 1500, 0, 0))))"
proof -
  have h: "im_getbbox example_env (c_image example_empty_block) = None"
    by (simp add: example_env_def example_empty_block_def)
  have n: "c_image example_empty_block = Named ''empty''"
    by (simp add: example_empty_block_def)
  show ?thesis
    using crop_empty_block_skipped [OF h, where zoom = 1 and s = example_state and iv = None
        and ext = "(1000, 1500, 0, 0)" and cs = "[]" and ?cs1.0 = "[example_block]"
        and ?s0.0 = example_state and ?iv0.0 = None and ?ext0.0 = "(1000, 1500, 0, 0)"
        and P = example_processor and padding = 4 and n = 0 and f = example_page1
        and st = "(example_state, None)"] n
    by auto
qed

subsection \<open>The crop processor: the border\<close>

lemma tess_SetVariable_image [simp]:
  "api_image (tess (SetVariable k v s)) = api_image (tess s)"
  by (simp add: SetVariable_def)

lemma files_tess_exit [simp]: "files (tess_exit s) = files s"
  by (simp add: tess_exit_def world.defs state.defs)

lemma files_PyTessBaseAPI [simp]: "files (PyTessBaseAPI p l om pm w) = files w"
  by (simp add: PyTessBaseAPI_def world.defs state.defs)

lemma Page_add_MetadataItem [simp]: "Page (add_MetadataItem E tool ps doc) = Page doc"
  by (simp add: add_MetadataItem_def)

lemma foldl_update_extent_bounds:
  assumes "\<forall>b\<in>set bs. within_page E page_image b"
      and "foldl update_extent (a, b, c, d) bs = (a', b', c', d')"
      and "0 \<le> a" "c \<le> int (im_width E page_image)"
      and "0 \<le> b" "d \<le> int (im_height E page_image)"
  shows "0 \<le> a' \<and> c' \<le> int (im_width E page_image) \<and>
         0 \<le> b' \<and> d' \<le> int (im_height E page_image)"
  using assms
proof (induction bs arbitrary: a b c d)
  case Nil
  then show ?case by simp
next
  case (Cons x xs)
  obtain l t r bt where x: "x = (l, t, r, bt)" by (cases x) auto
  have w: "0 \<le> l" "r \<le> int (im_width E page_image)" "0 \<le> t"
    "bt \<le> int (im_height E page_image)"
    using Cons.prems(1) x by (auto simp: within_page_def)
  have "update_extent (a, b, c, d) x = (min a l, min b t, max c r, max d bt)"
    using x by (simp add: update_extent_def)
  then have "foldl update_extent (min a l, min b t, max c r, max d bt) xs = (a', b', c', d')"
    using Cons.prems(2) by simp
  then show ?case
    using Cons.IH [of "min a l" "min b t" "max c r" "max d bt"] Cons.prems w by simp
qed

lemma crop_detect_extent:
  "snd (snd (crop_detect E zoom page_image (s, iv))) =
     foldl update_extent (int (im_width E page_image), int (im_height E page_image), 0, 0)
       (map (\<lambda>c. bbox_from_xywh E (c_xywh c))
          (filter (spec_contributes E zoom) (tess_GetComponentImages E (tess s) BLOCK)))"
  by (simp add: crop_detect_def GetComponentImages_def crop_blocks_extent)

lemma crop_prepare_image:
  "crop_prepare E padding n f (s, iv) = Inr (doc, page_image, zoom, s1) \<Longrightarrow>
     api_image (tess s1) = Some page_image"
  by (auto simp: crop_prepare_def Let_def SetImage_def SetPageSegMode_def
      split: sum.splits prod.splits)

text \<open>
  Claim C9. When the extent of the detected blocks is valid and so a Border is
  annotated, with a padding that is not negative and every detected block inside the
  page image, the border rectangle is not degenerate and lies inside the page image,
  and the image saved and referenced as AlternativeImage is the page image cropped to
  that rectangle.
\<close>

theorem crop_border_within_page:
  assumes pad: "0 \<le> padding"
      and within: "\<forall>c\<in>set (tess_GetComponentImages E (tess s) BLOCK).
                     within_page E page_image (bbox_from_xywh E (c_xywh c))"
      and det: "crop_detect E zoom page_image (s, iv) = (s1, iv1, ext)"
      and valid: "valid_extent ext"
      and ann: "crop_annotate E P padding n f page_image ext (pg, s1) = (pg', s2)"
  shows "\<exists>min_x min_y max_x max_y img_file.
           0 \<le> min_x \<and> min_x < max_x \<and> max_x \<le> int (im_width E page_image) \<and>
           0 \<le> min_y \<and> min_y < max_y \<and> max_y \<le> int (im_height E page_image) \<and>
           Border pg' = Some (points_from_bbox E min_x min_y max_x max_y) \<and>
           files s2 = files s1 @ [img_file] \<and>
           out_content img_file = ImageData (Crop page_image (min_x, min_y, max_x, max_y)) \<and>
           AlternativeImage pg' = AlternativeImage pg @
             [\<lparr>filename = out_local_filename img_file, comments = ''cropped''\<rparr>]"
proof -
  obtain a b c d where ext: "ext = (a, b, c, d)" by (cases ext) auto
  let ?bs = "map (\<lambda>c. bbox_from_xywh E (c_xywh c))
          (filter (spec_contributes E zoom) (tess_GetComponentImages E (tess s) BLOCK))"
  have f: "foldl update_extent (int (im_width E page_image), int (im_height E page_image), 0, 0)
             ?bs = (a, b, c, d)"
    using crop_detect_extent [where E = E and zoom = zoom and page_image = page_image and s = s and iv = iv] det ext by simp
  have "\<forall>x\<in>set ?bs. within_page E page_image x"
    using within by auto
  from foldl_update_extent_bounds [OF this f]
  have bnd: "0 \<le> a" "c \<le> int (im_width E page_image)" "0 \<le> b"
    "d \<le> int (im_height E page_image)"
    by simp_all
  have v: "a < c" "b < d" using valid ext by (simp_all add: valid_extent_def)
  let ?x0 = "max (a - padding) 0" and ?x1 = "min (c + padding) (int (im_width E page_image))"
  let ?y0 = "max (b - padding) 0" and ?y1 = "min (d + padding) (int (im_height E page_image))"
  have ord: "0 \<le> ?x0" "?x0 < ?x1" "?x1 \<le> int (im_width E page_image)"
    "0 \<le> ?y0" "?y0 < ?y1" "?y1 \<le> int (im_height E page_image)"
    using bnd v pad by auto
  have res: "Border pg' = Some (points_from_bbox E ?x0 ?y0 ?x1 ?y1) \<and>
        (\<exists>img_file. files s2 = files s1 @ [img_file] \<and>
           out_content img_file = ImageData (Crop page_image (?x0, ?y0, ?x1, ?y1)) \<and>
           AlternativeImage pg' = AlternativeImage pg @
             [\<lparr>filename = out_local_filename img_file, comments = ''cropped''\<rparr>])"
    using ann v unfolding ext crop_annotate_def save_image_file_def
    by (auto simp: Let_def)
  with ord show ?thesis by blast
qed

lemma example_detect_page1:
  "snd (snd (crop_detect example_env 1 (Named ''page1.tif'')
               (SetImage (Named ''page1.tif'') example_state, None))) = (100, 200, 600, 900)"
  by code_simp

lemma example_within_page1:
  "\<forall>c\<in>set (tess_GetComponentImages example_env
               (tess (SetImage (Named ''page1.tif'') example_state)) BLOCK).
      within_page example_env (Named ''page1.tif'') (bbox_from_xywh example_env (c_xywh c))"
  by code_simp

theorem crop_border_within_page_witness:
  "\<exists>s1 iv1 pg' s2.
     crop_detect example_env 1 (Named ''page1.tif'')
       (SetImage (Named ''page1.tif'') example_state, None) = (s1, iv1, (100, 200, 600, 900)) \<and>
     crop_annotate example_env example_processor 4 0 example_page1 (Named ''page1.tif'')
       (100, 200, 600, 900) (Page (file_pcgts example_page1), s1) = (pg', s2) \<and>
     (\<exists>min_x min_y max_x max_y img_file.
           0 \<le> min_x \<and> min_x < max_x \<and>
           max_x \<le> int (im_width example_env (Named ''page1.tif'')) \<and>
           0 \<le> min_y \<and> min_y < max_y \<and>
           max_y \<le> int (im_height example_env (Named ''page1.tif'')) \<and>
           Border pg' = Some (points_from_bbox example_env min_x min_y max_x max_y) \<and>
           files s2 = files s1 @ [img_file] \<and>
           out_content img_file =
             ImageData (Crop (Named ''page1.tif'') (min_x, min_y, max_x, max_y)) \<and>
           AlternativeImage pg' = AlternativeImage (Page (file_pcgts example_page1)) @
             [\<lparr>filename = out_local_filename img_file, comments = ''cropped''\<rparr>])"
proof -
  obtain s1 iv1 ext where det: "crop_detect example_env 1 (Named ''page1.tif'')
       (SetImage (Named ''page1.tif'') example_state, None) = (s1, iv1, ext)"
    by (cases "crop_detect example_env 1 (Named ''page1.tif'')
       (SetImage (Named ''page1.tif'') example_state, None)") auto
  have ext: "ext = (100, 200, 600, 900)"
    using example_detect_page1 det by simp
  obtain pg' s2 where ann: "crop_annotate example_env example_processor 4 0 example_page1
       (Named ''page1.tif'') ext (Page (file_pcgts example_page1), s1) = (pg', s2)"
    by (cases "crop_annotate example_env example_processor 4 0 example_page1
       (Named ''page1.tif'') ext (Page (file_pcgts example_page1), s1)") auto
  have v: "valid_extent ext" by (simp add: ext valid_extent_def)
  have p: "(0::int) \<le> 4" by simp
  show ?thesis
    using crop_border_within_page [OF p example_within_page1 det v ann] det ann
    unfolding ext by blast
qed

text \<open>
  Claim C1. When the extent left by the loop over the blocks is not valid, the page is
  reported with an error record and the run goes on: the Border and the
  AlternativeImages of the page are those of the input, no image file is saved, the
  PAGE file of the input file is still added to the workspace, and the loop over the
  input files continues with the next file.
\<close>

theorem crop_no_valid_extent:
  assumes prep: "crop_prepare E padding n f (s, iv) = Inr (doc, page_image, zoom, s1)"
      and det: "crop_detect E zoom page_image (s1, iv) = (s2, iv2, ext)"
      and bad: "\<not> valid_extent ext"
  shows "\<exists>s3 out. crop_process_file E P padding n f (s, iv) = Inr (s3, iv2) \<and>
           LOG_records s3 = LOG_records s2 @
             [(ERROR, ''Cannot find valid extent for page %s'', [AStr (page_id_of f)])] \<and>
           files s3 = files s @ [out] \<and>
           out_content out = PageXML doc \<and>
           out_file_grp out = output_file_grp P \<and>
           out_mimetype out = MIMETYPE_PAGE \<and>
           Border (Page doc) = Border (Page (file_pcgts f)) \<and>
           AlternativeImage (Page doc) = AlternativeImage (Page (file_pcgts f)) \<and>
           crop_files E P padding n (f # fs) (s, iv) =
             crop_files E P padding (Suc n) fs (s3, iv2)"
proof -
  obtain a b c d where ext: "ext = (a, b, c, d)" by (cases ext) auto
  have ann: "crop_annotate E P padding n f page_image ext (Page doc, s2) =
          (Page doc, LOG ERROR ''Cannot find valid extent for page %s'' [AStr (page_id_of f)] s2)"
    using bad unfolding ext by (auto simp: crop_annotate_def valid_extent_def)
  have fl: "files s2 = files s"
    using crop_prepare_Inr(4) [OF prep] crop_detect_files [where E = E and zoom = zoom and page_image = page_image and s = s1 and iv = iv] det
    by simp
  have d: "doc = add_MetadataItem E TOOL_crop [(''padding'', PInt padding)] (file_pcgts f)"
    using crop_prepare_Inr(1) [OF prep] .
  have pf: "crop_process_file E P padding n f (s, iv) =
      Inr (add_output_file E P n f doc
             (LOG ERROR ''Cannot find valid extent for page %s'' [AStr (page_id_of f)] s2), iv2)"
    by (simp add: crop_process_file_def prep det ann)
  show ?thesis
    unfolding crop_files.simps pf
    by (simp add: add_output_file_def Let_def fl d)
qed

lemma example_prepare_page2:
  "\<exists>doc zoom s1. crop_prepare example_env 4 1 example_page2 (example_state, Some (Named ''empty''))
      = Inr (doc, Named ''page2.tif'', zoom, s1)"
  by (simp add: crop_prepare_def download_file_def Let_def crop_existing_regions_def
      crop_resolution_def example_env_def example_page2_def add_MetadataItem_def
      split: prod.splits)

theorem crop_no_valid_extent_witness:
  "\<exists>s3 out doc. crop_process_file example_env example_processor 4 1 example_page2
               (example_state, Some (Named ''empty'')) = Inr (s3, Some (Named ''empty'')) \<and>
     last (LOG_records s3) =
        (ERROR, ''Cannot find valid extent for page %s'', [AStr (page_id_of example_page2)]) \<and>
     files s3 = files example_state @ [out] \<and>
     out_content out = PageXML doc \<and>
     Border (Page doc) = Border (Page (file_pcgts example_page2)) \<and>
     AlternativeImage (Page doc) = AlternativeImage (Page (file_pcgts example_page2)) \<and>
     crop_files example_env example_processor 4 1 [example_page2, example_page1]
       (example_state, Some (Named ''empty'')) =
     crop_files example_env example_processor 4 2 [example_page1] (s3, Some (Named ''empty''))"
proof -
  obtain doc zoom s1 where prep:
    "crop_prepare example_env 4 1 example_page2 (example_state, Some (Named ''empty''))
      = Inr (doc, Named ''page2.tif'', zoom, s1)"
    using example_prepare_page2 by blast
  obtain s2 iv2 ext where det: "crop_detect example_env zoom (Named ''page2.tif'')
       (s1, Some (Named ''empty'')) = (s2, iv2, ext)"
    by (cases "crop_detect example_env zoom (Named ''page2.tif'')
       (s1, Some (Named ''empty''))") auto
  have img: "api_image (tess s1) = Some (Named ''page2.tif'')"
    using crop_prepare_image [OF prep] .
  have nb: "tess_GetComponentImages example_env (tess s1) BLOCK = []"
    using img by (simp add: example_env_def)
  have r: "ext = (1000, 1500, 0, 0)" "iv2 = Some (Named ''empty'')"
    using det nb by (simp_all add: crop_detect_def GetComponentImages_def example_env_def)
  have bad: "\<not> valid_extent ext" by (simp add: r valid_extent_def)
  show ?thesis
    using crop_no_valid_extent [OF prep det bad, of example_processor "[example_page1]"]
    unfolding r by (auto simp: numeral_2_eq_2)
qed

subsection \<open>The crop processor: pages that already have text regions\<close>









subsection \<open>The line segmentation processor: lines in page coordinates\<close>

lemma xywh_moved:
  "b\<lparr>box_x := u, box_y := v\<rparr> = \<lparr>box_x = u, box_y = v, box_w = box_w b, box_h = box_h b\<rparr>"
  by (cases b) simp

lemma segment_line_add_lines:
  "TextLine (segment_line_add E region_xywh r (n, c)) =
     TextLine r @
       [\<lparr>line_id = region_id r @ ''_line'' @ fmt_04d (int n),
         line_points = points_from_xywh E (translate region_xywh (c_xywh c))\<rparr>]"
  by (simp add: segment_line_add_def Let_def translate_def xywh_moved)

lemma segment_line_add_id [simp]:
  "region_id (segment_line_add E region_xywh r nc) = region_id r"
  by (cases nc) (simp add: segment_line_add_def Let_def)

lemma foldl_segment_line_add_id [simp]:
  "region_id (foldl (segment_line_add E region_xywh) r ncs) = region_id r"
  by (induction ncs arbitrary: r) simp_all

lemma foldl_segment_line_add_lines:
  "TextLine (foldl (segment_line_add E region_xywh) r ncs) =
     TextLine r @
       map (\<lambda>(n, c). \<lparr>line_id = region_id r @ ''_line'' @ fmt_04d (int n),
                       line_points = points_from_xywh E (translate region_xywh (c_xywh c))\<rparr>)
         ncs"
proof (induction ncs arbitrary: r)
  case Nil
  then show ?case by simp
next
  case (Cons nc ncs)
  obtain n c where nc: "nc = (n, c)" by (cases nc) auto
  show ?case
    by (simp add: Cons.IH nc segment_line_add_lines)
qed

lemma segment_line_region_lines:
  assumes reg: "segment_line_region E overwrite_lines page_image page_xywh r s = (r', s')"
      and img: "image_from_region E (r\<lparr>TextLine := kept_lines overwrite_lines r\<rparr>)
                  page_image page_xywh = (region_image, region_xywh)"
      and eng: "tess_GetComponentImages E ((tess s)\<lparr>api_image := Some region_image\<rparr>) TEXTLINE
                  = comps"
  shows "TextLine r' = kept_lines overwrite_lines r @
           map (\<lambda>(n, c). \<lparr>line_id = region_id r @ ''_line'' @ fmt_04d (int n),
                           line_points =
                             points_from_xywh E
                               \<lparr>box_x = box_x (c_xywh c) + box_x region_xywh,
                                box_y = box_y (c_xywh c) + box_y region_xywh,
                                box_w = box_w (c_xywh c), box_h = box_h (c_xywh c)\<rparr>\<rparr>)
             (enumerate 0 comps)"
proof -
  let ?r0 = "r\<lparr>TextLine := kept_lines overwrite_lines r\<rparr>"
  have k: "(if TextLine r \<noteq> [] then
              (if overwrite_lines then r\<lparr>TextLine := []\<rparr> else r) else r) = ?r0"
    by (cases r) (auto simp: kept_lines_def)
  have "\<exists>s0. tess s0 = tess s \<and>
          (if TextLine r \<noteq> [] then
             (if overwrite_lines
              then (r\<lparr>TextLine := []\<rparr>,
                    LOG INFO ''removing existing TextLines in region %s''
                      [AStr (region_id r)] s)
              else (r, LOG WARNING ''keeping existing TextLines in region %s''
                         [AStr (region_id r)] s))
           else (r, s)) = (?r0, s0)"
    using k by (auto simp: LOG_def)
  then obtain s0 where s0: "tess s0 = tess s"
    "(if TextLine r \<noteq> [] then
             (if overwrite_lines
              then (r\<lparr>TextLine := []\<rparr>,
                    LOG INFO ''removing existing TextLines in region %s''
                      [AStr (region_id r)] s)
              else (r, LOG WARNING ''keeping existing TextLines in region %s''
                         [AStr (region_id r)] s))
           else (r, s)) = (?r0, s0)"
    by blast
  have "r' = foldl (segment_line_add E region_xywh) ?r0 (enumerate 0 comps)"
    using reg img eng s0(1) unfolding segment_line_region_def s0(2)
    by (auto simp: GetComponentImages_def SetImage_def LOG_def split: prod.splits)
  then show ?thesis
    by (simp add: foldl_segment_line_add_lines translate_def)
qed

text \<open>
  Claim C2. For every line the engine detects in the image of a region, the TextLine
  added to the region has as Coords the polygon of the engine's box with \<open>x\<close> and
  \<open>y\<close> increased by the region's offsets and with width and height unchanged; the
  lines come after those the region keeps, in the engine's order.
\<close>

theorem segment_line_offset:
  assumes reg: "segment_line_region E overwrite_lines page_image page_xywh r s = (r', s')"
      and img: "image_from_region E (r\<lparr>TextLine := kept_lines overwrite_lines r\<rparr>)
                  page_image page_xywh = (region_image, region_xywh)"
      and eng: "tess_GetComponentImages E ((tess s)\<lparr>api_image := Some region_image\<rparr>) TEXTLINE
                  = comps"
  shows "TextLine r' = kept_lines overwrite_lines r @
           map (\<lambda>(n, c). \<lparr>line_id = region_id r @ ''_line'' @ fmt_04d (int n),
                           line_points =
                             points_from_xywh E
                               \<lparr>box_x = box_x (c_xywh c) + box_x region_xywh,
                                box_y = box_y (c_xywh c) + box_y region_xywh,
                                box_w = box_w (c_xywh c), box_h = box_h (c_xywh c)\<rparr>\<rparr>)
             (enumerate 0 comps)"
  using reg img eng by (rule segment_line_region_lines)

lemma fmt_04d_0: "fmt_04d 0 = ''0000''"
  by code_simp

theorem segment_line_offset_witness:
  "\<exists>r' s'. segment_line_region example_env True (Named ''page2.tif'')
              \<lparr>box_x = 0, box_y = 0, box_w = 1000, box_h = 1500\<rparr> example_region example_state
            = (r', s') \<and>
     TextLine r' =
       [\<lparr>line_id = ''region1_line0000'',
         line_points = points_from_xywh example_env
                         \<lparr>box_x = 3 + 10, box_y = 4 + 20, box_w = 400, box_h = 30\<rparr>\<rparr>]"
proof -
  obtain r' s' where reg: "segment_line_region example_env True (Named ''page2.tif'')
              \<lparr>box_x = 0, box_y = 0, box_w = 1000, box_h = 1500\<rparr> example_region example_state
            = (r', s')"
    by (cases "segment_line_region example_env True (Named ''page2.tif'')
              \<lparr>box_x = 0, box_y = 0, box_w = 1000, box_h = 1500\<rparr> example_region example_state")
      auto
  have img: "image_from_region example_env
               (example_region\<lparr>TextLine := kept_lines True example_region\<rparr>)
               (Named ''page2.tif'') \<lparr>box_x = 0, box_y = 0, box_w = 1000, box_h = 1500\<rparr> =
             (Named ''region1'', \<lparr>box_x = 10, box_y = 20, box_w = 100, box_h = 200\<rparr>)"
    by (simp add: example_env_def example_region_def)
  have eng: "tess_GetComponentImages example_env
               ((tess example_state)\<lparr>api_image := Some (Named ''region1'')\<rparr>) TEXTLINE =
             [example_line]"
    by (simp add: example_env_def)
  have e: "enumerate 0 [example_line] = [(0, example_line)]" by simp
  show ?thesis
    using segment_line_offset [OF reg img eng] reg
    unfolding e
    by (simp add: kept_lines_def example_line_def example_region_def fmt_04d_0)
qed

subsection \<open>The deskew processor\<close>

lemma tess_SetImage [simp]: "tess (SetImage img s) = (tess s)\<lparr>api_image := Some img\<rparr>"
  by (simp add: SetImage_def)

lemma deskew_osd_assertion:
  "(\<exists>s'. deskew_osd kind where' (Some r) (seg, c, s) = Inl (AssertionError, s')) =
     (isnan (orient_conf r) \<or> isnan (script_conf r))"
  by (auto simp: deskew_osd_def split: prod.splits if_splits)

lemma deskew_osd_errors:
  "deskew_osd kind where' res (seg, c, s) = Inl (e, s') \<Longrightarrow> e = AssertionError"
  by (auto simp: deskew_osd_def split: prod.splits if_splits option.splits)

lemma deskew_layout_errors:
  "deskew_layout kind where' lay acc = Inl (e, s') \<Longrightarrow> e \<noteq> AssertionError"
  by (auto simp: deskew_layout_def Let_def split: prod.splits if_splits option.splits
      pyfloat.splits)

text \<open>
  Claim C4. When orientation and script detection returns a result for a segment, the
  processing of the segment fails with an AssertionError exactly when the orientation
  confidence or the script confidence of the result is NaN. (The assertions are taken
  as enabled, as they are unless Python runs with \<^verbatim>\<open>-O\<close>.)
\<close>

theorem deskew_assertion_iff_nan:
  assumes "tess_DetectOrientationScript E ((tess s)\<lparr>api_image := Some img\<rparr>) = Some r"
  shows "(\<exists>s'. process_segment E kind seg img xywh' where' page_id file_id s =
                 Inl (AssertionError, s')) =
         (isnan (orient_conf r) \<or> isnan (script_conf r))"
proof -
  let ?s1 = "(SetImage img s)\<lparr>trace := trace (SetImage img s) @
               [TessCall ''DetectOrientationScript'']\<rparr>"
  have d: "DetectOrientationScript E (SetImage img s) = (Some r, ?s1)"
    using assms by (simp add: DetectOrientationScript_def)
  show ?thesis
  proof (cases "deskew_osd kind where' (Some r) (seg, initial_comments kind xywh', ?s1)")
    case (Inl err)
    obtain e s' where err: "err = (e, s')" by (cases err) auto
    have e: "e = AssertionError" using deskew_osd_errors Inl err by blast
    have "isnan (orient_conf r) \<or> isnan (script_conf r)"
      using deskew_osd_assertion [of kind where' r seg "initial_comments kind xywh'" ?s1]
        Inl err e by auto
    moreover have "process_segment E kind seg img xywh' where' page_id file_id s =
        Inl (AssertionError, s')"
      using Inl err e by (simp add: process_segment_def d)
    ultimately show ?thesis by blast
  next
    case (Inr res)
    have n: "\<not> (isnan (orient_conf r) \<or> isnan (script_conf r))"
      using deskew_osd_assertion [of kind where' r seg "initial_comments kind xywh'" ?s1] Inr
      by auto
    obtain seg1 c1 angle s2 where res: "res = (seg1, c1, angle, s2)" by (cases res) auto
    have "\<not> (\<exists>s'. process_segment E kind seg img xywh' where' page_id file_id s =
                 Inl (AssertionError, s'))"
      using Inr res
      by (auto simp: process_segment_def d save_image_file_def Let_def
          split: prod.splits sum.splits dest: deskew_layout_errors)
    then show ?thesis using n by blast
  qed
qed

theorem deskew_assertion_iff_nan_witness:
  "(\<exists>s'. process_segment example_env PageType (Page (file_pcgts example_page2))
            (Named ''page2.tif'') \<lparr>box_x = 0, box_y = 0, box_w = 1000, box_h = 1500\<rparr>
            ''page'' (Some ''P0002'') ''OCR-D-IMG-DESKEW_0002'' example_state =
          Inl (AssertionError, s')) \<and>
   \<not> (\<exists>s'. process_segment example_env PageType (Page (file_pcgts example_page1))
            (Named ''page1.tif'') \<lparr>box_x = 0, box_y = 0, box_w = 1000, box_h = 1500\<rparr>
            ''page'' (Some ''P0001'') ''OCR-D-IMG-DESKEW_0001'' example_state =
          Inl (AssertionError, s'))"
proof -
  have a: "tess_DetectOrientationScript example_env
             ((tess example_state)\<lparr>api_image := Some (Named ''page2.tif'')\<rparr>) =
           Some \<lparr>orient_deg = 0, orient_conf = NaN, script_name = ''Latin'', script_conf = NaN\<rparr>"
    by (simp add: example_env_def)
  have b: "tess_DetectOrientationScript example_env
             ((tess example_state)\<lparr>api_image := Some (Named ''page1.tif'')\<rparr>) =
           Some \<lparr>orient_deg = 90, orient_conf = Num 15, script_name = ''Fraktur'',
                 script_conf = Num 12\<rparr>"
    by (simp add: example_env_def)
  show ?thesis
    unfolding deskew_assertion_iff_nan [OF a] deskew_assertion_iff_nan [OF b]
    by (simp add: isnan_def)
qed

lemma annotation_append:
  "annotation a \<Longrightarrow> annotation b \<Longrightarrow> annotation (a @ b)"
  by (cases a) (auto simp: annotation_def)

lemma deskew_osd_returns:
  assumes "case res of None \<Rightarrow> True
           | Some r \<Rightarrow> \<not> isnan (orient_conf r) \<and> \<not> isnan (script_conf r)"
  shows "\<exists>seg1 notes angle s1.
           deskew_osd kind where' res (seg, c, s) = Inr (seg1, c @ notes, angle, s1) \<and>
           AlternativeImage seg1 = AlternativeImage seg \<and> files s1 = files s \<and>
           tess s1 = tess s \<and> annotation notes"
proof (cases res)
  case None
  then show ?thesis by (simp add: deskew_osd_def annotation_def)
next
  case (Some r)
  then have n: "\<not> isnan (orient_conf r)" "\<not> isnan (script_conf r)"
    using assms by simp_all
  show ?thesis
  proof (cases "float_less (orient_conf r) 10 \<or> orient_deg r = 0")
    case True
    then have "\<exists>seg1 angle s1.
           deskew_osd kind where' res (seg, c, s) = Inr (seg1, c @ [], angle, s1) \<and>
           AlternativeImage seg1 = AlternativeImage seg \<and> files s1 = files s \<and>
           tess s1 = tess s"
      using n Some by (auto simp: deskew_osd_def)
    then show ?thesis using annotation_def by blast
  next
    case False
    then have "\<exists>seg1 angle s1.
           deskew_osd kind where' res (seg, c, s) =
             Inr (seg1, c @ ('',rotated-'' @ str_int (orient_deg r)), angle, s1) \<and>
           AlternativeImage seg1 = AlternativeImage seg \<and> files s1 = files s \<and>
           tess s1 = tess s"
      using n Some by (auto simp: deskew_osd_def)
    moreover have "annotation ('',rotated-'' @ str_int (orient_deg r))"
      by (simp add: annotation_def)
    ultimately show ?thesis by blast
  qed
qed

lemma deskew_layout_returns:
  assumes "case lay of None \<Rightarrow> True | Some lo \<Rightarrow> (\<exists>d. lo_deskew_angle lo = Num d)"
  shows "\<exists>seg1 img1 notes s1.
           deskew_layout kind where' lay (seg, img, c, angle, s) = Inr (seg1, img1, c @ notes, s1) \<and>
           AlternativeImage seg1 = AlternativeImage seg \<and> files s1 = files s \<and>
           annotation notes"
proof (cases lay)
  case None
  then show ?thesis by (simp add: deskew_layout_def annotation_def)
next
  case (Some lo)
  then obtain d where d: "lo_deskew_angle lo = Num d" using assms by auto
  let ?d = "d * (- 180 / math_pi)"
  show ?thesis
  proof (cases "py_int ?d \<noteq> 0")
    case True
    have "\<exists>seg1 img1 s1.
           deskew_layout kind where' lay (seg, img, c, angle, s) =
             Inr (seg1, img1, c @ '',deskewed'', s1) \<and>
           AlternativeImage seg1 = AlternativeImage seg \<and> files s1 = files s"
      using Some d True by (auto simp: deskew_layout_def Let_def)
    moreover have "annotation '',deskewed''" by (simp add: annotation_def)
    ultimately show ?thesis by blast
  next
    case False
    have "\<exists>seg1 img1 s1.
           deskew_layout kind where' lay (seg, img, c, angle, s) =
             Inr (seg1, img1, c @ [], s1) \<and>
           AlternativeImage seg1 = AlternativeImage seg \<and> files s1 = files s"
      using Some d False by (auto simp: deskew_layout_def Let_def)
    then show ?thesis using annotation_def by blast
  qed
qed

text \<open>
  Claim C10, as stated, has one AlternativeImage appended to every segment the deskew
  processor handles. A segment whose detection result has a NaN confidence ends in the
  assertion before any image is saved: in the example run the second page has such a
  result, and the run stops there with the files of the first page only.
\<close>

theorem deskew_alternative_image_missing:
  "fst (deskew_process example_env example_processor ''page'' empty_world) = Some AssertionError \<and>
   map out_ID (files (snd (deskew_process example_env example_processor ''page'' empty_world))) =
     [''OCR-D-IMG-DESKEW_0001'', ''OCR-D-OUT_0001'']"
  by code_simp

text \<open>
  Claim C10, amended. For every segment the deskew processor handles whose detection
  result, if any, has no NaN confidence and whose layout result, if any, has a finite
  deskew angle, processing returns and appends exactly one AlternativeImage, which
  references the image file saved just then, whether or not detection and layout
  analysis return a result. Its comments are the initial comments followed by the
  rotation notes; the initial comments are empty for a page with both offsets zero and
  \<open>cropped\<close> otherwise, and the comments start with \<open>cropped\<close> exactly when the segment
  is a region or a page with a nonzero offset.
\<close>

theorem deskew_alternative_image:
  assumes osd: "case tess_DetectOrientationScript E ((tess s)\<lparr>api_image := Some img\<rparr>) of
                  None \<Rightarrow> True
                | Some r \<Rightarrow> \<not> isnan (orient_conf r) \<and> \<not> isnan (script_conf r)"
      and lay: "case tess_AnalyseLayout E ((tess s)\<lparr>api_image := Some img\<rparr>) of
                  None \<Rightarrow> True
                | Some lo \<Rightarrow> (\<exists>d. lo_deskew_angle lo = Num d)"
  shows "\<exists>seg' s' image_file notes.
           process_segment E kind seg img xywh' where' page_id file_id s = Inr (seg', s') \<and>
           files s' = files s @ [image_file] \<and>
           out_file_grp image_file = FILEGRP_IMG_deskew \<and>
           AlternativeImage seg' = AlternativeImage seg @
             [\<lparr>filename = out_local_filename image_file,
               comments = initial_comments kind xywh' @ notes\<rparr>] \<and>
           annotation notes \<and>
           initial_comments kind xywh' =
             (if kind = PageType \<and> box_x xywh' = 0 \<and> box_y xywh' = 0 then [] else ''cropped'') \<and>
           prefix ''cropped'' (initial_comments kind xywh' @ notes) =
             (kind \<noteq> PageType \<or> box_x xywh' \<noteq> 0 \<or> box_y xywh' \<noteq> 0)"
proof -
  let ?c = "initial_comments kind xywh'"
  let ?s0 = "(SetImage img s)\<lparr>trace := trace (SetImage img s) @
               [TessCall ''DetectOrientationScript'']\<rparr>"
  let ?res = "tess_DetectOrientationScript E ((tess s)\<lparr>api_image := Some img\<rparr>)"
  have d: "DetectOrientationScript E (SetImage img s) = (?res, ?s0)"
    by (simp add: DetectOrientationScript_def SetImage_def)
  have s0: "files ?s0 = files s" "tess ?s0 = (tess s)\<lparr>api_image := Some img\<rparr>"
    by (simp_all add: SetImage_def)
  obtain seg1 n1 angle s1 where o:
    "deskew_osd kind where' ?res (seg, ?c, ?s0) = Inr (seg1, ?c @ n1, angle, s1)"
    "AlternativeImage seg1 = AlternativeImage seg" "files s1 = files ?s0"
    "tess s1 = tess ?s0" "annotation n1"
    using deskew_osd_returns [OF osd] by blast
  let ?s2 = "s1\<lparr>trace := trace s1 @ [TessCall ''AnalyseLayout'']\<rparr>"
  let ?lay = "tess_AnalyseLayout E ((tess s)\<lparr>api_image := Some img\<rparr>)"
  have a: "AnalyseLayout E s1 = (?lay, ?s2)"
    using o(4) s0(2) by (simp add: AnalyseLayout_def)
  obtain seg2 img2 n2 s3 where l:
    "deskew_layout kind where' ?lay (seg1, img, ?c @ n1, angle, ?s2) =
       Inr (seg2, img2, (?c @ n1) @ n2, s3)"
    "AlternativeImage seg2 = AlternativeImage seg1" "files s3 = files ?s2" "annotation n2"
    using deskew_layout_returns [OF lay] by blast
  have n: "annotation (n1 @ n2)" using o(5) l(4) by (rule annotation_append)
  have p: "prefix ''cropped'' (?c @ n1 @ n2) =
             (kind \<noteq> PageType \<or> box_x xywh' \<noteq> 0 \<or> box_y xywh' \<noteq> 0)"
    using n by (cases "n1 @ n2") (auto simp: initial_comments_def annotation_def)
  have f: "files s3 = files s" using l(3) o(3) s0(1) by simp
  have "process_segment E kind seg img xywh' where' page_id file_id s =
      (case save_image_file E img2 file_id page_id FILEGRP_IMG_deskew s3 of
         (file_path, s) \<Rightarrow>
           Inr (seg2\<lparr>AlternativeImage := AlternativeImage seg2 @
                  [\<lparr>filename = file_path, comments = ?c @ n1 @ n2\<rparr>]\<rparr>, s))"
    by (simp add: process_segment_def d o(1) a l(1))
  then show ?thesis
    using n p f l(2) o(2)
    by (auto simp: save_image_file_def Let_def initial_comments_def)
qed

theorem deskew_alternative_image_witness:
  "\<exists>seg' s' image_file.
      process_segment example_env PageType (Page (file_pcgts example_page1))
        (Named ''page1.tif'') \<lparr>box_x = 0, box_y = 0, box_w = 1000, box_h = 1500\<rparr>
        ''page'' (Some ''P0001'') ''OCR-D-IMG-DESKEW_0001'' example_state = Inr (seg', s') \<and>
      files s' = files example_state @ [image_file] \<and>
      length (AlternativeImage seg') = 1 \<and>
      \<not> prefix ''cropped'' (comments (hd (AlternativeImage seg')))"
proof -
  have osd: "case tess_DetectOrientationScript example_env
                    ((tess example_state)\<lparr>api_image := Some (Named ''page1.tif'')\<rparr>) of
                  None \<Rightarrow> True
                | Some r \<Rightarrow> \<not> isnan (orient_conf r) \<and> \<not> isnan (script_conf r)"
    by (simp add: example_env_def isnan_def)
  have lay: "case tess_AnalyseLayout example_env
                    ((tess example_state)\<lparr>api_image := Some (Named ''page1.tif'')\<rparr>) of
                  None \<Rightarrow> True
                | Some lo \<Rightarrow> (\<exists>d. lo_deskew_angle lo = Num d)"
    by (simp add: example_env_def)
  have a: "AlternativeImage (Page (file_pcgts example_page1)) = []"
    by (simp add: example_page1_def)
  show ?thesis
    using deskew_alternative_image [OF osd lay, where kind = PageType
        and seg = "Page (file_pcgts example_page1)"
        and xywh' = "\<lparr>box_x = 0, box_y = 0, box_w = 1000, box_h = 1500\<rparr>"
        and where' = "''page''" and page_id = "Some ''P0001''"
        and file_id = "''OCR-D-IMG-DESKEW_0001''"]
    unfolding a by auto
qed

subsection \<open>What the processors leave of the input document\<close>

lemma written_add_output_file [simp]: "written (add_output_file E P n f doc s) doc' = (doc' = doc)"
  by (auto simp: written_def add_output_file_def Let_def)

lemma Metadata_add_MetadataItem:
  "prefix (Metadata doc) (Metadata (add_MetadataItem E tool ps doc))"
  by (simp add: add_MetadataItem_def)




lemma segment_line_add_frame [simp]:
  "region_points (segment_line_add E b r nc) = region_points r"
  "AlternativeImage (segment_line_add E b r nc) = AlternativeImage r"
  by (cases nc; simp add: segment_line_add_def Let_def)+

lemma foldl_segment_line_add_frame [simp]:
  "region_points (foldl (segment_line_add E b) r ncs) = region_points r"
  "AlternativeImage (foldl (segment_line_add E b) r ncs) = AlternativeImage r"
  by (induction ncs arbitrary: r; simp)+





lemma region_kept_refl [simp]: "region_kept r r"
  by (simp add: region_kept_def)

lemma list_all2_region_kept_refl [simp]: "list_all2 region_kept rs rs"
  by (simp add: list_all2_refl)















subsection \<open>One engine instance for each run\<close>

lemma within_refl [simp]: "within_instance s s []"
  by (simp add: within_instance_def)

lemma within_trans:
  "within_instance s s' a \<Longrightarrow> within_instance s' s'' b \<Longrightarrow> within_instance s s'' (a @ b)"
  by (auto simp: within_instance_def)

lemma within_quiet:
  "within_instance s s' [] \<Longrightarrow> within_instance s' s'' b \<Longrightarrow> within_instance s s'' b"
  using within_trans [of s s' "[]" s'' b] by simp

lemma within_quiet2:
  "within_instance s s' b \<Longrightarrow> within_instance s' s'' [] \<Longrightarrow> within_instance s s'' b"
  using within_trans [of s s' b s'' "[]"] by simp

lemma within_same_trace: "trace s' = trace s \<Longrightarrow> within_instance s s' []"
  by (simp add: within_instance_def)

lemma within_call: "trace s' = trace s @ [TessCall c] \<Longrightarrow> within_instance s s' []"
  by (simp add: within_instance_def is_download_def)

lemma within_LOG [simp]: "within_instance s (LOG l m a s) []"
  by (simp add: within_same_trace)

lemma within_SetVariable [simp]: "within_instance s (SetVariable k v s) []"
  by (rule within_call) (simp add: SetVariable_def)

lemma within_SetImage [simp]: "within_instance s (SetImage i s) []"
  by (rule within_call) (simp add: SetImage_def)

lemma within_SetPageSegMode [simp]: "within_instance s (SetPageSegMode m s) []"
  by (rule within_call) (simp add: SetPageSegMode_def)

lemma within_GetComponentImages [simp]:
  "within_instance s (snd (GetComponentImages E r s)) []"
  by (rule within_call) (simp add: GetComponentImages_def)

lemma within_DetectOrientationScript [simp]:
  "within_instance s (snd (DetectOrientationScript E s)) []"
  by (rule within_call) (simp add: DetectOrientationScript_def)

lemma within_AnalyseLayout [simp]:
  "within_instance s (snd (AnalyseLayout E s)) []"
  by (rule within_call) (simp add: AnalyseLayout_def)

lemma within_add_file [simp]: "within_instance s (add_file f s) []"
  by (simp add: within_instance_def add_file_def is_download_def)

lemma within_add_output_file [simp]: "within_instance s (add_output_file E P n f doc s) []"
  by (simp add: add_output_file_def Let_def)

lemma within_save_image_file [simp]:
  "within_instance s (snd (save_image_file E img file_id page_id grp s)) []"
  by (simp add: save_image_file_def Let_def)

lemma within_download_file [simp]:
  "within_instance s (snd (download_file f s)) [DownloadFile (file_ID f)]"
  by (simp add: within_instance_def download_file_def is_download_def)

lemma within_step:
  "within_instance s (g s) [] \<Longrightarrow> within_instance s0 s b \<Longrightarrow> within_instance s0 (g s) b"
  using within_quiet2 by blast

lemma crop_block_trace: "trace (fst (crop_block E zoom c (s, iv, ext))) = trace s"
  by (auto simp: crop_block_def Let_def split: prod.splits option.splits)

lemma crop_blocks_trace: "trace (fst (crop_blocks E zoom cs (s, iv, ext))) = trace s"
proof (induction cs arbitrary: s iv ext)
  case Nil
  then show ?case by simp
next
  case (Cons c cs)
  obtain s' iv' ext' where st: "crop_block E zoom c (s, iv, ext) = (s', iv', ext')"
    by (cases "crop_block E zoom c (s, iv, ext)") auto
  then show ?case
    using Cons.IH [of s' iv' ext'] crop_block_trace [of E zoom c s iv ext] by simp
qed

lemma crop_detect_within:
  "within_instance s (fst (crop_detect E zoom page_image (s, iv))) []"
  by (rule within_call)
     (simp add: crop_detect_def GetComponentImages_def crop_blocks_trace split: prod.splits)

lemma crop_annotate_within:
  "within_instance s (snd (crop_annotate E P padding n f page_image ext (pg, s))) []"
  by (cases ext)
     (auto simp: crop_annotate_def Let_def save_image_file_def add_file_def
       within_instance_def is_download_def)

lemma crop_prepare_within:
  "within_instance s
     (case crop_prepare E padding n f (s, iv) of
        Inl (e, s') \<Rightarrow> s' | Inr (doc, page_image, zoom, s') \<Rightarrow> s')
     [DownloadFile (file_ID f)]"
  by (auto simp: crop_prepare_def download_file_def Let_def crop_existing_regions_def
      crop_resolution_def within_instance_def is_download_def SetVariable_def SetImage_def
      SetPageSegMode_def LOG_def
      split: option.splits prod.splits sum.splits)

lemma crop_process_file_within:
  "within_instance s
     (case crop_process_file E P padding n f (s, iv) of
        Inl (e, s') \<Rightarrow> s' | Inr (s', iv') \<Rightarrow> s')
     [DownloadFile (file_ID f)]"
proof (cases "crop_prepare E padding n f (s, iv)")
  case (Inl err)
  then show ?thesis
    using crop_prepare_within [of s E padding n f iv]
    by (auto simp: crop_process_file_def split: prod.splits)
next
  case (Inr res)
  obtain doc page_image zoom s1 where res: "res = (doc, page_image, zoom, s1)"
    by (cases res) auto
  obtain s2 iv2 ext where det: "crop_detect E zoom page_image (s1, iv) = (s2, iv2, ext)"
    by (cases "crop_detect E zoom page_image (s1, iv)") auto
  obtain pg' s3 where ann:
    "crop_annotate E P padding n f page_image ext (Page doc, s2) = (pg', s3)"
    by (cases "crop_annotate E P padding n f page_image ext (Page doc, s2)") auto
  have a: "within_instance s s1 [DownloadFile (file_ID f)]"
    using crop_prepare_within [of s E padding n f iv] Inr res by simp
  have b: "within_instance s1 s2 []"
    using crop_detect_within [of s1 E zoom page_image iv] det by simp
  have c: "within_instance s2 s3 []"
    using crop_annotate_within [of s2 E P padding n f page_image ext "Page doc"] ann by simp
  have d: "within_instance s3 (add_output_file E P n f (doc\<lparr>Page := pg'\<rparr>) s3) []"
    by simp
  have "within_instance s (add_output_file E P n f (doc\<lparr>Page := pg'\<rparr>) s3)
          [DownloadFile (file_ID f)]"
    using within_quiet2 [OF within_quiet2 [OF within_quiet2 [OF a b] c] d] .
  then show ?thesis
    by (simp add: crop_process_file_def Inr res det ann)
qed

lemma crop_files_within:
  "\<exists>k\<le>length fs.
     within_instance s
       (case crop_files E P padding n fs (s, iv) of
          Inl (e, s') \<Rightarrow> s' | Inr (s', iv') \<Rightarrow> s')
       (downloads (take k fs)) \<and>
     (\<not> isl (crop_files E P padding n fs (s, iv)) \<longrightarrow> k = length fs)"
proof (induction fs arbitrary: n s iv)
  case Nil
  then show ?case by (simp add: downloads_def)
next
  case (Cons f fs)
  show ?case
  proof (cases "crop_process_file E P padding n f (s, iv)")
    case (Inl err)
    obtain e s' where err: "err = (e, s')" by (cases err) auto
    have "within_instance s s' (downloads (take 1 (f # fs)))"
      using crop_process_file_within [of s E P padding n f iv] Inl err
      by (simp add: downloads_def)
    then show ?thesis
      using Inl err by (intro exI [of _ 1]) simp
  next
    case (Inr st)
    obtain s1 iv1 where st: "st = (s1, iv1)" by (cases st) auto
    have a: "within_instance s s1 [DownloadFile (file_ID f)]"
      using crop_process_file_within [of s E P padding n f iv] Inr st by simp
    obtain k where k: "k \<le> length fs"
      "within_instance s1
         (case crop_files E P padding (Suc n) fs (s1, iv1) of
            Inl (e, s') \<Rightarrow> s' | Inr (s', iv') \<Rightarrow> s')
         (downloads (take k fs))"
      "\<not> isl (crop_files E P padding (Suc n) fs (s1, iv1)) \<longrightarrow> k = length fs"
      using Cons.IH [of s1 "Suc n" iv1] by blast
    have "within_instance s
         (case crop_files E P padding (Suc n) fs (s1, iv1) of
            Inl (e, s') \<Rightarrow> s' | Inr (s', iv') \<Rightarrow> s')
         (downloads (take (Suc k) (f # fs)))"
      using within_trans [OF a k(2)] by (simp add: downloads_def)
    then show ?thesis
      using k(1,3) Inr st by (intro exI [of _ "Suc k"]) simp
  qed
qed

lemma trace_PyTessBaseAPI [simp]:
  "trace (PyTessBaseAPI p l om pm w) = trace w @ [TessInit]"
  by (simp add: PyTessBaseAPI_def world.defs state.defs)

lemma trace_tess_exit [simp]: "trace (tess_exit s) = trace s @ [TessEnd]"
  by (simp add: tess_exit_def world.defs state.defs)

lemma single_engine_runI:
  assumes "within_instance (PyTessBaseAPI p l om pm w) s' (downloads (take k fs))"
      and "k \<le> length fs" and "completed \<longrightarrow> k = length fs"
  shows "single_engine_run w (tess_exit s') fs completed"
  using assms
  by (auto simp: single_engine_run_def within_instance_def)

lemma crop_single_engine:
  "single_engine_run w (snd (crop_process E P padding w)) (input_files P)
     (fst (crop_process E P padding w) = None)"
proof -
  let ?s0 = "PyTessBaseAPI (TESSDATA_PREFIX E) None None None w"
  let ?s1 = "SetVariable ''textord_tabfind_find_tables'' ''0'' ?s0"
  let ?r = "crop_files E P padding 0 (input_files P) (?s1, None)"
  let ?s' = "case ?r of Inl (e, s') \<Rightarrow> s' | Inr (s', iv') \<Rightarrow> s'"
  obtain k where k: "k \<le> length (input_files P)"
    "within_instance ?s1 ?s' (downloads (take k (input_files P)))"
    "\<not> isl ?r \<longrightarrow> k = length (input_files P)"
    using crop_files_within [of "input_files P" ?s1 E P padding 0 None] by blast
  have w: "within_instance ?s0 ?s' (downloads (take k (input_files P)))"
    using within_quiet [OF within_SetVariable k(2)] .
  have r: "crop_process E P padding w = ((case ?r of Inl (e, s') \<Rightarrow> Some e | Inr _ \<Rightarrow> None),
             tess_exit ?s')"
    by (simp add: crop_process_def Let_def split: sum.splits prod.splits)
  have c: "(fst (crop_process E P padding w) = None) = (\<not> isl ?r)"
    unfolding r by (simp split: sum.splits prod.splits)
  show ?thesis
    unfolding c using single_engine_runI [OF w k(1) k(3)] unfolding r by simp
qed


lemma segment_line_region_within:
  "within_instance s
     (snd (segment_line_region E overwrite_lines page_image page_xywh r s)) []"
  by (auto simp: segment_line_region_def GetComponentImages_def SetImage_def LOG_def
       within_instance_def is_download_def split: prod.splits)

lemma segment_line_regions_within:
  "within_instance s
     (snd (segment_line_regions E overwrite_lines page_image page_xywh rs s)) []"
proof (induction rs arbitrary: s)
  case Nil
  then show ?case by simp
next
  case (Cons r rs)
  obtain r1 s1 where r1:
    "segment_line_region E overwrite_lines page_image page_xywh r s = (r1, s1)"
    by (cases "segment_line_region E overwrite_lines page_image page_xywh r s") auto
  obtain rs1 s2 where rs1:
    "segment_line_regions E overwrite_lines page_image page_xywh rs s1 = (rs1, s2)"
    by (cases "segment_line_regions E overwrite_lines page_image page_xywh rs s1") auto
  have a: "within_instance s s1 []"
    using segment_line_region_within [of s E overwrite_lines page_image page_xywh r] r1
    by simp
  have b: "within_instance s1 s2 []"
    using Cons.IH [of s1] rs1 by simp
  show ?case
    using within_quiet [OF a b] by (simp add: r1 rs1)
qed

lemma segment_line_page_within:
  "within_instance s (snd (segment_line_page E overwrite_lines f s))
     [DownloadFile (file_ID f)]"
proof -
  let ?doc = "add_MetadataItem E TOOL_segment_line
                [(''overwrite_lines'', PBool overwrite_lines)] (file_pcgts f)"
  let ?img = "resolve_image_as_pil E (imageFilename (Page ?doc))"
  let ?s0 = "snd (download_file f s)"
  let ?s1 = "if im_info_dpi E ?img \<noteq> 0
             then SetVariable ''user_defined_dpi'' (str_int (im_info_dpi E ?img)) ?s0
             else ?s0"
  obtain page_image page_xywh where i:
    "image_from_page E (Page ?doc) ?img (page_id_of f) = (page_image, page_xywh)"
    by (cases "image_from_page E (Page ?doc) ?img (page_id_of f)") auto
  obtain rs s2 where rs:
    "segment_line_regions E overwrite_lines page_image page_xywh (TextRegion (Page ?doc)) ?s1
       = (rs, s2)"
    by (cases "segment_line_regions E overwrite_lines page_image page_xywh
                 (TextRegion (Page ?doc)) ?s1") auto
  have a: "within_instance s ?s0 [DownloadFile (file_ID f)]" by simp
  have b: "within_instance ?s0 ?s1 []" by simp
  have c: "within_instance ?s1 s2 []"
    using segment_line_regions_within [of ?s1 E overwrite_lines page_image page_xywh
        "TextRegion (Page ?doc)"] rs by simp
  have r: "snd (segment_line_page E overwrite_lines f s) = s2"
    using i rs
    by (auto simp: segment_line_page_def Let_def download_file_def
        split: prod.splits if_splits)
  show ?thesis
    unfolding r using within_quiet2 [OF within_quiet2 [OF a b] c] .
qed

lemma segment_line_process_file_within:
  "within_instance s (segment_line_process_file E P overwrite_lines n f s)
     [DownloadFile (file_ID f)]"
proof -
  let ?s0 = "LOG INFO ''INPUT FILE %i / %s'' [AInt (int n), AStr (page_id_of f)] s"
  obtain doc s1 where p: "segment_line_page E overwrite_lines f ?s0 = (doc, s1)"
    by (cases "segment_line_page E overwrite_lines f ?s0") auto
  have a: "within_instance ?s0 s1 [DownloadFile (file_ID f)]"
    using segment_line_page_within [of ?s0 E overwrite_lines f] p by simp
  have b: "within_instance s1 (add_output_file E P n f doc s1) []" by simp
  show ?thesis
    using within_quiet [OF within_LOG within_quiet2 [OF a b]]
    by (simp add: segment_line_process_file_def p)
qed

lemma segment_line_files_within:
  "within_instance s (segment_line_files E P overwrite_lines n fs s) (downloads fs)"
proof (induction fs arbitrary: n s)
  case Nil
  then show ?case by (simp add: downloads_def)
next
  case (Cons f fs)
  have a: "within_instance s (segment_line_process_file E P overwrite_lines n f s)
             [DownloadFile (file_ID f)]"
    by (rule segment_line_process_file_within)
  show ?case
    using within_trans [OF a Cons.IH [of "segment_line_process_file E P overwrite_lines n f s"
          "Suc n"]]
    by (simp add: downloads_def)
qed

lemma segment_line_single_engine:
  "single_engine_run w (segment_line_process E P overwrite_lines w) (input_files P) True"
proof -
  let ?s0 = "PyTessBaseAPI (TESSDATA_PREFIX E) None None (Some SINGLE_BLOCK) w"
  have "within_instance ?s0
          (segment_line_files E P overwrite_lines 0 (input_files P) ?s0)
          (downloads (take (length (input_files P)) (input_files P)))"
    using segment_line_files_within [of ?s0 E P overwrite_lines 0 "input_files P"] by simp
  then show ?thesis
    unfolding segment_line_process_def
    by (rule single_engine_runI) simp_all
qed


lemma deskew_osd_trace:
  "trace (case deskew_osd kind where' res (seg, c, s) of
            Inl (e, s') \<Rightarrow> s' | Inr (seg1, c1, angle, s') \<Rightarrow> s') = trace s"
  by (auto simp: deskew_osd_def split: option.splits prod.splits)

lemma deskew_layout_trace:
  "trace (case deskew_layout kind where' lay (seg, img, c, angle, s) of
            Inl (e, s') \<Rightarrow> s' | Inr (seg1, img1, c1, s') \<Rightarrow> s') = trace s"
  by (auto simp: deskew_layout_def Let_def split: option.splits prod.splits pyfloat.splits)

lemma process_segment_within:
  "within_instance s
     (case process_segment E kind seg img xywh' where' page_id file_id s of
        Inl (e, s') \<Rightarrow> s' | Inr (seg', s') \<Rightarrow> s') []"
proof -
  obtain res s0 where d: "DetectOrientationScript E (SetImage img s) = (res, s0)"
    by (cases "DetectOrientationScript E (SetImage img s)") auto
  have "within_instance (SetImage img s) (snd (DetectOrientationScript E (SetImage img s))) []"
    by (rule within_DetectOrientationScript)
  then have a: "within_instance s s0 []"
    using within_quiet [OF within_SetImage] d by fastforce
  show ?thesis
  proof (cases "deskew_osd kind where' res (seg, initial_comments kind xywh', s0)")
    case (Inl err)
    obtain e s1 where err: "err = (e, s1)" by (cases err) auto
    have "trace s1 = trace s0"
      using deskew_osd_trace [of kind where' res seg "initial_comments kind xywh'" s0] Inl err
      by simp
    then have "within_instance s s1 []"
      using within_quiet2 [OF a within_same_trace] by simp
    then show ?thesis by (simp add: process_segment_def d Inl err)
  next
    case (Inr r)
    obtain seg1 c1 angle s1 where r: "r = (seg1, c1, angle, s1)" by (cases r) auto
    have "trace s1 = trace s0"
      using deskew_osd_trace [of kind where' res seg "initial_comments kind xywh'" s0] Inr r
      by simp
    then have b: "within_instance s s1 []"
      using within_quiet2 [OF a within_same_trace] by simp
    obtain lay s2 where l: "AnalyseLayout E s1 = (lay, s2)"
      by (cases "AnalyseLayout E s1") auto
    have c: "within_instance s s2 []"
      using within_quiet2 [OF b within_AnalyseLayout [of s1 E]] l by simp
    show ?thesis
    proof (cases "deskew_layout kind where' lay (seg1, img, c1, angle, s2)")
      case (Inl err)
      obtain e s3 where err: "err = (e, s3)" by (cases err) auto
      have "trace s3 = trace s2"
        using deskew_layout_trace [of kind where' lay seg1 img c1 angle s2] Inl err by simp
      then have "within_instance s s3 []"
        using within_quiet2 [OF c within_same_trace] by simp
      then show ?thesis by (simp add: process_segment_def d Inr r l Inl err)
    next
      case (Inr q)
      obtain seg2 img2 c2 s3 where q: "q = (seg2, img2, c2, s3)" by (cases q) auto
      have "trace s3 = trace s2"
        using deskew_layout_trace [of kind where' lay seg1 img c1 angle s2] Inr q by simp
      then have e: "within_instance s s3 []"
        using within_quiet2 [OF c within_same_trace] by simp
      have "within_instance s
              (snd (save_image_file E img2 file_id page_id FILEGRP_IMG_deskew s3)) []"
        using within_quiet2 [OF e within_save_image_file] .
      then show ?thesis
        using \<open>deskew_osd kind where' res (seg, initial_comments kind xywh', s0) = Inr r\<close>
        by (auto simp: process_segment_def d r l Inr q split: prod.splits)
    qed
  qed
qed

lemma deskew_regions_within:
  "within_instance s
     (case deskew_regions E kind page_image page_xywh page_id file_id rs s of
        Inl (e, s') \<Rightarrow> s' | Inr (rs', s') \<Rightarrow> s') []"
proof (induction rs arbitrary: s)
  case Nil
  then show ?case by simp
next
  case (Cons r rs)
  obtain region_image region_xywh where
    i: "image_from_segment E r page_image page_xywh = (region_image, region_xywh)"
    by (cases "image_from_segment E r page_image page_xywh") auto
  let ?p = "process_segment E kind r region_image region_xywh
                  (''region '' @ [CHR 0x27] @ region_id r @ [CHR 0x27]) page_id
                  (file_id @ ''_'' @ region_id r) s"
  have a: "within_instance s (case ?p of Inl (e, s') \<Rightarrow> s' | Inr (seg', s') \<Rightarrow> s') []"
    by (rule process_segment_within)
  show ?case
  proof (cases ?p)
    case (Inl err)
    then show ?thesis using a by (auto simp: i split: prod.splits)
  next
    case (Inr q)
    obtain r1 s1 where q: "q = (r1, s1)" by (cases q) auto
    have b: "within_instance s s1 []" using a Inr q by simp
    have c: "within_instance s
               (case deskew_regions E kind page_image page_xywh page_id file_id rs s1 of
                  Inl (e, s') \<Rightarrow> s' | Inr (rs', s') \<Rightarrow> s') []"
      using within_quiet [OF b Cons.IH [of s1]] .
    show ?thesis
      using c Inr q by (auto simp: i split: sum.splits prod.splits)
  qed
qed

lemma deskew_page_within:
  "within_instance s
     (case deskew_page E P oplevel n f s of Inl (e, s') \<Rightarrow> s' | Inr (doc, s') \<Rightarrow> s')
     [DownloadFile (file_ID f)]"
proof -
  let ?file_id = "str_replace (file_ID f) (input_file_grp P) FILEGRP_IMG_deskew"
  let ?doc = "add_MetadataItem E TOOL_deskew [(''operation_level'', PStr oplevel)]
                (file_pcgts f)"
  obtain page_image page_xywh info where i:
    "image_from_page_info E (Page ?doc) (page_id_of f) = (page_image, page_xywh, info)"
    by (cases "image_from_page_info E (Page ?doc) (page_id_of f)") auto
  let ?s0 = "snd (download_file f
                    (LOG INFO ''INPUT FILE %i / %s'' [AInt (int n), AStr (page_id_of f)] s))"
  let ?s1 = "if xResolution info \<noteq> 1 then
               (let dpi = xResolution info;
                    dpi = (if resolutionUnit info = ''cm''
                           then dpi_from_cm dpi else dpi)
                in SetVariable ''user_defined_dpi'' (str_int dpi) ?s0)
             else ?s0"
  let ?s2 = "LOG INFO ''Deskewing on %s level in page %s''
               [AStr oplevel, AStr (page_id_of f)] ?s1"
  have a: "within_instance s ?s0 [DownloadFile (file_ID f)]"
    using within_quiet [OF within_LOG within_download_file] .
  have "within_instance ?s0 ?s1 []" by (simp add: Let_def)
  then have b: "within_instance s ?s2 [DownloadFile (file_ID f)]"
    using within_quiet2 [OF within_quiet2 [OF a] within_LOG] by blast
  show ?thesis
  proof (cases "oplevel = ''page''")
    case True
    let ?p = "process_segment E PageType (Page ?doc) page_image page_xywh
                (''page '' @ [CHR 0x27] @ page_id_of f @ [CHR 0x27]) (file_pageId f)
                ?file_id ?s2"
    have c: "within_instance s (case ?p of Inl (e, s') \<Rightarrow> s' | Inr (seg', s') \<Rightarrow> s')
               [DownloadFile (file_ID f)]"
      using within_quiet2 [OF b process_segment_within] .
    have "deskew_page E P oplevel n f s =
            (case ?p of Inl err \<Rightarrow> Inl err | Inr (pg, s) \<Rightarrow> Inr (?doc\<lparr>Page := pg\<rparr>, s))"
      using True i
      by (auto simp: deskew_page_def Let_def download_file_def split: sum.splits prod.splits)
    then show ?thesis
      using c by (auto split: sum.splits prod.splits)
  next
    case False
    let ?s3 = "if TextRegion (Page ?doc) @ TableRegion (Page ?doc) = [] then
                 LOG WARNING ''Page %s contains no text regions'' [AStr (page_id_of f)] ?s2
               else ?s2"
    have "within_instance ?s2 ?s3 []" by simp
    then have c: "within_instance s ?s3 [DownloadFile (file_ID f)]"
      using within_quiet2 [OF b] by blast
    let ?t = "deskew_regions E TextRegionType page_image page_xywh (file_pageId f) ?file_id
                (TextRegion (Page ?doc)) ?s3"
    have d: "within_instance s (case ?t of Inl (e, s') \<Rightarrow> s' | Inr (rs', s') \<Rightarrow> s')
               [DownloadFile (file_ID f)]"
      using within_quiet2 [OF c deskew_regions_within] .
    have r: "deskew_page E P oplevel n f s =
            (case ?t of
               Inl err \<Rightarrow> Inl err
             | Inr (trs, s) \<Rightarrow>
                 (case deskew_regions E TableRegionType page_image page_xywh (file_pageId f)
                         ?file_id (TableRegion (Page ?doc)) s of
                    Inl err \<Rightarrow> Inl err
                  | Inr (tbs, s) \<Rightarrow>
                      Inr (?doc\<lparr>Page := (Page ?doc)\<lparr>TextRegion := trs,
                                                     TableRegion := tbs\<rparr>\<rparr>, s)))"
      using False i
      by (auto simp: deskew_page_def Let_def download_file_def split: sum.splits prod.splits)
    show ?thesis
    proof (cases ?t)
      case (Inl err)
      then show ?thesis using d unfolding r by (auto split: prod.splits)
    next
      case (Inr q)
      obtain trs s4 where q: "q = (trs, s4)" by (cases q) auto
      have e: "within_instance s s4 [DownloadFile (file_ID f)]" using d Inr q by simp
      let ?b = "deskew_regions E TableRegionType page_image page_xywh (file_pageId f)
                  ?file_id (TableRegion (Page ?doc)) s4"
      have "within_instance s (case ?b of Inl (e, s') \<Rightarrow> s' | Inr (rs', s') \<Rightarrow> s')
               [DownloadFile (file_ID f)]"
        using within_quiet2 [OF e deskew_regions_within] .
      then show ?thesis
        unfolding r Inr q by (auto split: sum.splits prod.splits)
    qed
  qed
qed

lemma deskew_process_file_within:
  "within_instance s
     (case deskew_process_file E P oplevel n f s of Inl (e, s') \<Rightarrow> s' | Inr s' \<Rightarrow> s')
     [DownloadFile (file_ID f)]"
proof (cases "deskew_page E P oplevel n f s")
  case (Inl err)
  then show ?thesis
    using deskew_page_within [of s E P oplevel n f]
    by (auto simp: deskew_process_file_def split: prod.splits)
next
  case (Inr q)
  obtain doc s1 where q: "q = (doc, s1)" by (cases q) auto
  have a: "within_instance s s1 [DownloadFile (file_ID f)]"
    using deskew_page_within [of s E P oplevel n f] Inr q by simp
  show ?thesis
    using within_quiet2 [OF a within_add_output_file]
    by (simp add: deskew_process_file_def Inr q)
qed

lemma deskew_files_within:
  "\<exists>k\<le>length fs.
     within_instance s
       (case deskew_files E P oplevel n fs s of Inl (e, s') \<Rightarrow> s' | Inr s' \<Rightarrow> s')
       (downloads (take k fs)) \<and>
     (\<not> isl (deskew_files E P oplevel n fs s) \<longrightarrow> k = length fs)"
proof (induction fs arbitrary: n s)
  case Nil
  then show ?case by (simp add: downloads_def)
next
  case (Cons f fs)
  show ?case
  proof (cases "deskew_process_file E P oplevel n f s")
    case (Inl err)
    obtain e s' where err: "err = (e, s')" by (cases err) auto
    have "within_instance s s' (downloads (take 1 (f # fs)))"
      using deskew_process_file_within [of s E P oplevel n f] Inl err
      by (simp add: downloads_def)
    then show ?thesis
      using Inl err by (intro exI [of _ 1]) simp
  next
    case (Inr s1)
    have a: "within_instance s s1 [DownloadFile (file_ID f)]"
      using deskew_process_file_within [of s E P oplevel n f] Inr by simp
    obtain k where k: "k \<le> length fs"
      "within_instance s1
         (case deskew_files E P oplevel (Suc n) fs s1 of Inl (e, s') \<Rightarrow> s' | Inr s' \<Rightarrow> s')
         (downloads (take k fs))"
      "\<not> isl (deskew_files E P oplevel (Suc n) fs s1) \<longrightarrow> k = length fs"
      using Cons.IH [of s1 "Suc n"] by blast
    have "within_instance s
         (case deskew_files E P oplevel (Suc n) fs s1 of Inl (e, s') \<Rightarrow> s' | Inr s' \<Rightarrow> s')
         (downloads (take (Suc k) (f # fs)))"
      using within_trans [OF a k(2)] by (simp add: downloads_def)
    then show ?thesis
      using k(1,3) Inr by (intro exI [of _ "Suc k"]) simp
  qed
qed

lemma deskew_single_engine:
  "single_engine_run w (snd (deskew_process E P oplevel w)) (input_files P)
     (fst (deskew_process E P oplevel w) = None)"
proof -
  let ?s0 = "PyTessBaseAPI (TESSDATA_PREFIX E) (Some ''osd'')
               (Some TESSERACT_LSTM_COMBINED) (Some AUTO_OSD) w"
  let ?r = "deskew_files E P oplevel 0 (input_files P) ?s0"
  let ?s' = "case ?r of Inl (e, s') \<Rightarrow> s' | Inr s' \<Rightarrow> s'"
  obtain k where k: "k \<le> length (input_files P)"
    "within_instance ?s0 ?s' (downloads (take k (input_files P)))"
    "\<not> isl ?r \<longrightarrow> k = length (input_files P)"
    using deskew_files_within [of "input_files P" ?s0 E P oplevel 0] by blast
  have r: "deskew_process E P oplevel w =
             ((case ?r of Inl (e, s') \<Rightarrow> Some e | Inr _ \<Rightarrow> None), tess_exit ?s')"
    by (simp add: deskew_process_def split: sum.splits prod.splits)
  have c: "(fst (deskew_process E P oplevel w) = None) = (\<not> isl ?r)"
    unfolding r by (simp split: sum.splits prod.splits)
  show ?thesis
    unfolding c using single_engine_runI [OF k(2) k(1) k(3)] unfolding r by simp
qed

text \<open>
  Claim C7. In every run of each of the three processors one engine instance is
  opened, before the first input file is fetched, and ended last; in between no
  instance is opened or ended, and the input files are fetched one after the other in
  their order: all of them when the run completes, those up to the failing one when an
  exception ends it.
\<close>

theorem one_engine_instance_per_run:
  "single_engine_run w (snd (crop_process E P padding w)) (input_files P)
     (fst (crop_process E P padding w) = None) \<and>
   single_engine_run w (snd (deskew_process E P oplevel w)) (input_files P)
     (fst (deskew_process E P oplevel w) = None) \<and>
   single_engine_run w (segment_line_process E P overwrite_lines w) (input_files P) True"
  using crop_single_engine deskew_single_engine segment_line_single_engine by blast

lemma example_runs_complete:
  "fst (crop_process example_env example_processor 4 empty_world) = None \<and>
   fst (deskew_process example_env (example_processor\<lparr>input_files := [example_page1]\<rparr>)
          ''page'' empty_world) = None"
  by code_simp

theorem one_engine_instance_per_run_witness:
  "single_engine_run empty_world
     (snd (crop_process example_env example_processor 4 empty_world))
     [example_page1, example_page2] True \<and>
   single_engine_run empty_world
     (segment_line_process example_env example_processor False empty_world)
     [example_page1, example_page2] True \<and>
   trace (snd (crop_process example_env example_processor 4 empty_world)) =
     [TessInit, TessCall ''SetVariable'', DownloadFile ''OCR-D-SEG_0001'',
      TessCall ''SetVariable'', TessCall ''SetImage'', TessCall ''SetPageSegMode'',
      TessCall ''GetComponentImages'', AddFile ''OCR-D-IMG-CROP_0001'',
      AddFile ''OCR-D-OUT_0001'', DownloadFile ''OCR-D-SEG_0002'', TessCall ''SetVariable'',
      TessCall ''SetImage'', TessCall ''SetPageSegMode'', TessCall ''GetComponentImages'',
      AddFile ''OCR-D-OUT_0002'', TessEnd]"
proof -
  have i: "input_files example_processor = [example_page1, example_page2]"
    by (simp add: example_processor_def)
  have t: "trace (snd (crop_process example_env example_processor 4 empty_world)) =
     [TessInit, TessCall ''SetVariable'', DownloadFile ''OCR-D-SEG_0001'',
      TessCall ''SetVariable'', TessCall ''SetImage'', TessCall ''SetPageSegMode'',
      TessCall ''GetComponentImages'', AddFile ''OCR-D-IMG-CROP_0001'',
      AddFile ''OCR-D-OUT_0001'', DownloadFile ''OCR-D-SEG_0002'', TessCall ''SetVariable'',
      TessCall ''SetImage'', TessCall ''SetPageSegMode'', TessCall ''GetComponentImages'',
      AddFile ''OCR-D-OUT_0002'', TessEnd]"
    by code_simp
  show ?thesis
    using one_engine_instance_per_run [of empty_world example_env example_processor 4
        "''page''" False] example_runs_complete t
    by (simp add: i)
qed

end
